theory Spec2Isabelle
  imports Complex_Main
begin

section \<open>Numbers, vectors and obstacles\<close>

text \<open>
  JavaScript numbers are modelled as \<open>real\<close>: the scene coordinates, the clock
  (\<open>Date.now()\<close>, milliseconds) and the results of \<open>Math.random()\<close>. Rounding of
  IEEE doubles is not part of the model. \<open>Math.sqrt\<close> is \<open>sqrt\<close>.

  \<open>THREE.Vector3\<close> is a triple of numbers. The selectors are \<open>vx\<close>, \<open>vy\<close>, \<open>vz\<close>
  (the source's \<open>.x\<close>, \<open>.y\<close>, \<open>.z\<close>).
\<close>

datatype vec3 = Vector3 (vx: real) (vy: real) (vz: real)

text \<open>\<open>Vector3.distanceTo\<close>: the Euclidean distance.\<close>

definition distanceTo :: "vec3 \<Rightarrow> vec3 \<Rightarrow> real" where
  "distanceTo a b =
     sqrt ((vx a - vx b) * (vx a - vx b) + (vy a - vy b) * (vy a - vy b)
           + (vz a - vz b) * (vz a - vz b))"

text \<open>
  An entry of \<open>this.obstacles\<close> (CyberpunkOffice.js, constructor):
  \<open>{ x, z, width, depth }\<close>. The centre fields are named \<open>obs_x\<close> and \<open>obs_z\<close>.
\<close>

record obstacle =
  obs_x :: real
  obs_z :: real
  width :: real
  depth :: real

text \<open>The obstacle list of the constructor (CyberpunkOffice.js, lines 37-51).\<close>

definition obstacles :: "obstacle list" where
  "obstacles =
    [\<lparr>obs_x = 0, obs_z = 0, width = 14, depth = 8\<rparr>,
     \<lparr>obs_x = 0, obs_z = 5, width = 3, depth = 3\<rparr>,
     \<lparr>obs_x = 15, obs_z = -8, width = 8, depth = 6\<rparr>,
     \<lparr>obs_x = 8, obs_z = 2, width = 2, depth = 2\<rparr>,
     \<lparr>obs_x = -25, obs_z = 0, width = 4, depth = 4\<rparr>,
     \<lparr>obs_x = 0, obs_z = -30, width = 4, depth = 4\<rparr>,
     \<lparr>obs_x = 25, obs_z = 0, width = 4, depth = 4\<rparr>,
     \<lparr>obs_x = 0, obs_z = 25, width = 4, depth = 4\<rparr>]"

section \<open>Collision query (checkCollision, findValidPosition)\<close>

text \<open>
  The body of the \<open>for (let obstacle of this.obstacles)\<close> loop of \<open>checkCollision\<close>:
  the test of one obstacle against the robot at \<open>(x, z)\<close> with radius \<open>robotRadius\<close>.
  All four comparisons are strict, as in the source.
\<close>

definition intersectsObstacle :: "obstacle \<Rightarrow> real \<Rightarrow> real \<Rightarrow> real \<Rightarrow> bool" where
  "intersectsObstacle ob x z robotRadius =
     (let obstacleLeft = obs_x ob - width ob / 2;
          obstacleRight = obs_x ob + width ob / 2;
          obstacleTop = obs_z ob - depth ob / 2;
          obstacleBottom = obs_z ob + depth ob / 2
      in x + robotRadius > obstacleLeft \<and> x - robotRadius < obstacleRight
         \<and> z + robotRadius > obstacleTop \<and> z - robotRadius < obstacleBottom)"

text \<open>The loop itself: it returns true at the first obstacle that is hit.\<close>

fun checkObstacles :: "obstacle list \<Rightarrow> real \<Rightarrow> real \<Rightarrow> real \<Rightarrow> bool" where
  "checkObstacles [] x z robotRadius = False"
| "checkObstacles (ob # obs) x z robotRadius =
     (if intersectsObstacle ob x z robotRadius then True
      else checkObstacles obs x z robotRadius)"

text \<open>
  \<open>checkCollision(x, z, robotRadius = 2)\<close>: the obstacle loop, then the scene boundary
  (\<open>sceneBoundary = 40\<close>). The obstacle list \<open>this.obstacles\<close> is the first argument.
\<close>

definition sceneBoundary :: real where
  "sceneBoundary = 40"

definition checkCollision :: "obstacle list \<Rightarrow> real \<Rightarrow> real \<Rightarrow> real \<Rightarrow> bool" where
  "checkCollision obs x z robotRadius =
     (if checkObstacles obs x z robotRadius then True
      else if \<bar>x\<bar> > sceneBoundary \<or> \<bar>z\<bar> > sceneBoundary then True
      else False)"

text \<open>The default value of the parameter \<open>robotRadius\<close>.\<close>

definition defaultRobotRadius :: real where
  "defaultRobotRadius = 2"

text \<open>
  \<open>Math.random()\<close> is an input of the model: a function \<open>rnd\<close> gives the result of the
  \<open>k\<close>-th call, and every operation that draws returns the index of the next call.

  \<open>findValidPosition(currentX, currentZ, maxAttempts = 10)\<close>: the loop
  \<open>for (let i = 0; i < maxAttempts; i++)\<close> is a recursion on the attempts that are left.
  Each attempt draws \<open>x\<close> and then \<open>z\<close>, and returns the point when \<open>checkCollision\<close>
  (with its default radius) is false. After the loop the current position is returned.
\<close>

fun findValidLoop ::
  "obstacle list \<Rightarrow> (nat \<Rightarrow> real) \<Rightarrow> nat \<Rightarrow> nat \<Rightarrow> real \<Rightarrow> real \<Rightarrow> (real \<times> real) \<times> nat" where
  "findValidLoop obs rnd k 0 currentX currentZ = ((currentX, currentZ), k)"
| "findValidLoop obs rnd k (Suc n) currentX currentZ =
     (let x = (rnd k - 0.5) * 60;
          z = (rnd (k + 1) - 0.5) * 60
      in if \<not> checkCollision obs x z defaultRobotRadius then ((x, z), k + 2)
         else findValidLoop obs rnd (k + 2) n currentX currentZ)"

definition findValidPosition ::
  "obstacle list \<Rightarrow> (nat \<Rightarrow> real) \<Rightarrow> nat \<Rightarrow> real \<Rightarrow> real \<Rightarrow> nat \<Rightarrow> (real \<times> real) \<times> nat" where
  "findValidPosition obs rnd k currentX currentZ maxAttempts =
     findValidLoop obs rnd k maxAttempts currentX currentZ"

definition defaultMaxAttempts :: nat where
  "defaultMaxAttempts = 10"

text \<open>The \<open>i\<close>-th candidate point of a call that starts drawing at index \<open>k\<close>.\<close>

definition candidate :: "(nat \<Rightarrow> real) \<Rightarrow> nat \<Rightarrow> nat \<Rightarrow> real \<times> real" where
  "candidate rnd k i = ((rnd (k + 2 * i) - 0.5) * 60, (rnd (k + 2 * i + 1) - 0.5) * 60)"

definition candidateBlocked :: "obstacle list \<Rightarrow> (nat \<Rightarrow> real) \<Rightarrow> nat \<Rightarrow> nat \<Rightarrow> bool" where
  "candidateBlocked obs rnd k i =
     checkCollision obs (fst (candidate rnd k i)) (snd (candidate rnd k i)) defaultRobotRadius"

text \<open>
  The collision query as the specification words it: a closed-interval overlap test of
  the square footprint of side \<open>2 * agentRadius\<close> against each obstacle rectangle
  (touching boundaries overlap), or a position outside the boundary of 40 units.
\<close>

definition overlapsClosed :: "obstacle \<Rightarrow> real \<Rightarrow> real \<Rightarrow> real \<Rightarrow> bool" where
  "overlapsClosed ob x z agentRadius =
     (obs_x ob - width ob / 2 \<le> x + agentRadius \<and> x - agentRadius \<le> obs_x ob + width ob / 2
      \<and> obs_z ob - depth ob / 2 \<le> z + agentRadius \<and> z - agentRadius \<le> obs_z ob + depth ob / 2)"

definition isBlocked_spec :: "obstacle list \<Rightarrow> real \<Rightarrow> real \<Rightarrow> real \<Rightarrow> bool" where
  "isBlocked_spec obs x z agentRadius =
     (list_ex (\<lambda>ob. overlapsClosed ob x z agentRadius) obs \<or> \<bar>x\<bar> > 40 \<or> \<bar>z\<bar> > 40)"

text \<open>The same test with open intervals: touching boundaries do not overlap.\<close>

definition overlapsOpen :: "obstacle \<Rightarrow> real \<Rightarrow> real \<Rightarrow> real \<Rightarrow> bool" where
  "overlapsOpen ob x z agentRadius =
     (obs_x ob - width ob / 2 < x + agentRadius \<and> x - agentRadius < obs_x ob + width ob / 2
      \<and> obs_z ob - depth ob / 2 < z + agentRadius \<and> z - agentRadius < obs_z ob + depth ob / 2)"

section \<open>Scene state\<close>

text \<open>
  The sections of the navigation bar (\<open>data-section\<close>). \<open>OtherSection\<close> stands for
  any name that is neither \<open>home\<close> nor one of the four hologram sections.
\<close>

datatype navSection = Home | About | Projects | Skills | Contact | OtherSection

text \<open>
  \<open>gsap\<close> is an external library. Of its tweens the model keeps the two animated
  objects that carry state of the focus modes, \<open>camera.position\<close> and
  \<open>controls.target\<close>, the destination, the time at which the tween ends (start plus
  duration, in milliseconds) and the \<open>onComplete\<close> callback. Tweens of rotations,
  scales and materials only change the picture and are left out, and so are
  \<open>controls.autoRotate\<close> and the DOM (navigation bar classes, modals, console).
\<close>

datatype tweenTarget = CameraPosition | ControlsTarget

datatype onComplete =
    NoCallback
  | ActivateTracking int
  | ShowPhoneHologram
  | DefaultViewReached

record tween =
  tw_target :: tweenTarget
  tw_to :: vec3
  tw_end :: real
  tw_onComplete :: onComplete

text \<open>
  The fields of \<open>Portfolio3D\<close> and \<open>CyberpunkOffice\<close> that the focus modes and the
  robot use, under the source's names. \<open>phoneHologram\<close> is \<open>None\<close> until
  \<open>createPhoneHologram\<close> has run, then \<open>Some visible\<close>. \<open>yesNoVisible\<close> is the
  \<open>visible\<close> flag of the two robot buttons, which are always set together.
  \<open>timers\<close> holds the due times of the pending \<open>setTimeout\<close> of
  \<open>deactivateRobotHelpMode\<close>. \<open>overwriteDefault\<close> is gsap's \<open>overwrite\<close> default:
  whether a new tween kills the pending tweens of the same object. No operation changes
  it, and the theorems below hold for both values.
\<close>

record state =
  isLoaded :: bool
  currentSection :: navSection
  activeHologramIndex :: int
  isHologramActive :: bool
  camera_position :: vec3
  controls_target :: vec3
  obstacles_of :: "obstacle list"
  robotInteractionMode :: bool
  robotHelpModeStartTime :: "real option"
  originalCameraPosition :: "vec3 option"
  originalCameraTarget :: "vec3 option"
  phoneInteractionMode :: bool
  phoneHologram :: "bool option"
  robot_position :: vec3
  isMoving :: bool
  targetPosition :: vec3
  moveSpeed :: real
  lastDirectionChange :: real
  yesNoVisible :: bool
  tweens :: "tween list"
  timers :: "real list"
  overwriteDefault :: bool

text \<open>
  The only exception of the modelled code: \<open>exitPhoneMode\<close> reads
  \<open>this.originalCameraPosition.x\<close>, a TypeError while the field is \<open>null\<close>.
\<close>

datatype error = TypeError

definition andThen :: "error + 'a \<Rightarrow> ('a \<Rightarrow> error + 'b) \<Rightarrow> error + 'b" where
  "andThen r f = (case r of Inl e \<Rightarrow> Inl e | Inr v \<Rightarrow> f v)"

section \<open>Tweens and timers\<close>

text \<open>\<open>gsap.to(object, {..., duration, onComplete})\<close>: the tween is queued.\<close>

definition gsap_to :: "tween \<Rightarrow> state \<Rightarrow> state" where
  "gsap_to tw s =
     s\<lparr>tweens :=
         (if overwriteDefault s then filter (\<lambda>t. tw_target t \<noteq> tw_target tw) (tweens s)
          else tweens s) @ [tw]\<rparr>"

text \<open>
  The \<open>onComplete\<close> callbacks of the source: of the \<open>controls.target\<close> tween of
  \<open>focusOnHologramScreen\<close> (line 1501: \<open>this.isHologramActive = true\<close>), of
  \<open>enterPhoneMode\<close> (line 1017: the hologram is created if missing and shown) and
  of \<open>returnToDefaultView\<close> (line 1691: auto-rotation only).
\<close>

fun runCallback :: "onComplete \<Rightarrow> state \<Rightarrow> state" where
  "runCallback NoCallback s = s"
| "runCallback (ActivateTracking screenIndex) s = s\<lparr>isHologramActive := True\<rparr>"
| "runCallback ShowPhoneHologram s = s\<lparr>phoneHologram := Some True\<rparr>"
| "runCallback DefaultViewReached s = s"

text \<open>A tween that ends: the object holds the destination, then the callback runs.\<close>

definition completeTween :: "tween \<Rightarrow> state \<Rightarrow> state" where
  "completeTween tw s =
     runCallback (tw_onComplete tw)
       (case tw_target tw of
          CameraPosition \<Rightarrow> s\<lparr>camera_position := tw_to tw\<rparr>
        | ControlsTarget \<Rightarrow> s\<lparr>controls_target := tw_to tw\<rparr>)"

fun runTweens :: "real \<Rightarrow> tween list \<Rightarrow> state \<Rightarrow> state" where
  "runTweens now [] s = s"
| "runTweens now (tw # tws) s =
     (if tw_end tw \<le> now then runTweens now tws (completeTween tw s)
      else runTweens now tws s)"

text \<open>
  One tick of gsap at time \<open>now\<close>: the tweens whose end has come complete, in the order
  in which they were started, and leave the queue. The interpolated values of a tween
  in flight are not computed here: between two events the camera is moved by the
  event \<open>CameraMoved\<close> below, which stands for OrbitControls and for tweens in flight.
\<close>

definition gsapTick :: "real \<Rightarrow> state \<Rightarrow> state" where
  "gsapTick now s =
     runTweens now (tweens s) (s\<lparr>tweens := filter (\<lambda>tw. \<not> tw_end tw \<le> now) (tweens s)\<rparr>)"

text \<open>
  The callback of \<open>setTimeout(..., 100)\<close> in \<open>deactivateRobotHelpMode\<close> (line 3905).
\<close>

definition forceDirectionChange :: "real \<Rightarrow> state \<Rightarrow> state" where
  "forceDirectionChange now s =
     (if \<not> robotInteractionMode s then s\<lparr>lastDirectionChange := now - 4000\<rparr> else s)"

fun fireTimers :: "real \<Rightarrow> real list \<Rightarrow> state \<Rightarrow> state" where
  "fireTimers now [] s = s"
| "fireTimers now (due # dues) s =
     (if due \<le> now then fireTimers now dues (forceDirectionChange now s)
      else fireTimers now dues s)"

definition runTimeouts :: "real \<Rightarrow> state \<Rightarrow> state" where
  "runTimeouts now s =
     fireTimers now (timers s) (s\<lparr>timers := filter (\<lambda>due. \<not> due \<le> now) (timers s)\<rparr>)"

section \<open>Device (phone) focus\<close>

text \<open>\<open>this.objects.phone.position\<close> (createPhone, line 564).\<close>

definition phonePosition :: vec3 where
  "phonePosition = Vector3 (-4.2) 2.95 1.8"

text \<open>\<open>enterPhoneMode\<close> (CyberpunkOffice.js, lines 984-1025).\<close>

definition enterPhoneMode :: "real \<Rightarrow> state \<Rightarrow> state" where
  "enterPhoneMode now s =
     (let s1 = s\<lparr>phoneInteractionMode := True,
                  originalCameraPosition := Some (camera_position s),
                  originalCameraTarget := Some (controls_target s)\<rparr>;
          hologramPosition = Vector3 (vx phonePosition) (vy phonePosition + 1.0) (vz phonePosition);
          targetPosition = Vector3 (vx phonePosition - 1.8) (vy hologramPosition + 0.3)
                             (vz phonePosition + 1.5);
          s2 = gsap_to \<lparr>tw_target = CameraPosition, tw_to = targetPosition,
                         tw_end = now + 1500, tw_onComplete = NoCallback\<rparr> s1
      in gsap_to \<lparr>tw_target = ControlsTarget, tw_to = hologramPosition,
                   tw_end = now + 1500, tw_onComplete = ShowPhoneHologram\<rparr> s2)"

text \<open>\<open>exitPhoneMode\<close> (lines 1027-1051).\<close>

definition exitPhoneMode :: "real \<Rightarrow> state \<Rightarrow> error + state" where
  "exitPhoneMode now s =
     (let s1 = s\<lparr>phoneInteractionMode := False,
                  phoneHologram := (case phoneHologram s of None \<Rightarrow> None
                                    | Some visible \<Rightarrow> Some False)\<rparr>
      in case originalCameraPosition s1 of
           None \<Rightarrow> Inl TypeError
         | Some p \<Rightarrow>
            (case originalCameraTarget s1 of
               None \<Rightarrow> Inl TypeError
             | Some q \<Rightarrow>
                 Inr (gsap_to \<lparr>tw_target = ControlsTarget, tw_to = q,
                               tw_end = now + 1500, tw_onComplete = NoCallback\<rparr>
                       (gsap_to \<lparr>tw_target = CameraPosition, tw_to = p,
                                 tw_end = now + 1500, tw_onComplete = NoCallback\<rparr> s1))))"

text \<open>\<open>handlePhoneClick\<close> (lines 974-982).\<close>

definition handlePhoneClick :: "real \<Rightarrow> state \<Rightarrow> error + state" where
  "handlePhoneClick now s =
     (if phoneInteractionMode s then exitPhoneMode now s else Inr (enterPhoneMode now s))"

text \<open>\<open>autoClosePhoneHologram\<close> (InteractiveElements.js, lines 1639-1648).\<close>

definition autoClosePhoneHologram :: "real \<Rightarrow> state \<Rightarrow> error + state" where
  "autoClosePhoneHologram now s =
     (if phoneInteractionMode s \<and> phoneHologram s = Some True then exitPhoneMode now s
      else Inr s)"

section \<open>Robot help mode\<close>

text \<open>
  \<open>activateRobotHelpMode\<close> (CyberpunkOffice.js, lines 3808-3857). The robot exists once
  the scene is loaded, so the test \<open>!this.objects.robot\<close> is false.
\<close>

definition activateRobotHelpMode :: "real \<Rightarrow> state \<Rightarrow> state" where
  "activateRobotHelpMode now s =
     (if robotInteractionMode s then s
      else
        let s1 = s\<lparr>robotInteractionMode := True,
                    robotHelpModeStartTime := Some now,
                    originalCameraPosition := Some (camera_position s),
                    originalCameraTarget := Some (controls_target s),
                    isMoving := False,
                    yesNoVisible := True\<rparr>;
            robotPos = robot_position s1;
            targetPos = Vector3 (vx robotPos) (vy robotPos + 5) (vz robotPos);
            cameraPos = Vector3 (vx robotPos + 8) (vy robotPos + 5) (vz robotPos + 8);
            s2 = gsap_to \<lparr>tw_target = CameraPosition, tw_to = cameraPos,
                           tw_end = now + 2000, tw_onComplete = NoCallback\<rparr> s1
        in gsap_to \<lparr>tw_target = ControlsTarget, tw_to = targetPos,
                     tw_end = now + 2000, tw_onComplete = NoCallback\<rparr> s2)"

text \<open>\<open>deactivateRobotHelpMode\<close> (lines 3859-3914).\<close>

definition deactivateRobotHelpMode :: "real \<Rightarrow> state \<Rightarrow> state" where
  "deactivateRobotHelpMode now s =
     (if \<not> robotInteractionMode s then s
      else
        let s1 = s\<lparr>robotInteractionMode := False,
                    robotHelpModeStartTime := None,
                    yesNoVisible := False\<rparr>;
            s2 = (case originalCameraPosition s1 of
                    None \<Rightarrow> s1
                  | Some p \<Rightarrow>
                     (case originalCameraTarget s1 of
                        None \<Rightarrow> s1
                      | Some q \<Rightarrow>
                          gsap_to \<lparr>tw_target = ControlsTarget, tw_to = q,
                                    tw_end = now + 2000, tw_onComplete = NoCallback\<rparr>
                            (gsap_to \<lparr>tw_target = CameraPosition, tw_to = p,
                                      tw_end = now + 2000, tw_onComplete = NoCallback\<rparr> s1)))
        in s2\<lparr>lastDirectionChange := 0,
               isMoving := False,
               timers := timers s2 @ [now + 100]\<rparr>)"

text \<open>\<open>shouldAutoCloseRobotHelp\<close> (InteractiveElements.js, lines 1592-1636).\<close>

definition shouldAutoCloseRobotHelp :: "real \<Rightarrow> state \<Rightarrow> bool" where
  "shouldAutoCloseRobotHelp now s =
     (if \<not> robotInteractionMode s then False
      else
        let gracePeriod = 3000;
            timeSinceActivation =
              now - (case robotHelpModeStartTime s of None \<Rightarrow> 0 | Some t \<Rightarrow> t)
        in if timeSinceActivation < gracePeriod then False
           else
             let distanceToRobot = distanceTo (camera_position s) (robot_position s);
                 targetToRobotDistance = distanceTo (controls_target s) (robot_position s);
                 maxCameraDistance = 25;
                 maxTargetDistance = 20
             in if distanceToRobot > maxCameraDistance
                   \<or> targetToRobotDistance > maxTargetDistance then True
                else False)"

section \<open>Robot movement\<close>

text \<open>
  \<open>updateRobotMovement\<close> (CyberpunkOffice.js, lines 3032-3126) has two parts. The
  first (lines 3039-3060) is the timed change of direction. It draws \<open>Math.random()\<close>
  once for the interval (index 0) and, when the interval is over, calls
  \<open>findValidPosition\<close>, which draws from index 1 on. The result carries the index of
  the next draw.
\<close>

definition retargetStep :: "real \<Rightarrow> (nat \<Rightarrow> real) \<Rightarrow> state \<Rightarrow> state \<times> nat" where
  "retargetStep currentTime rnd s =
     (if currentTime - lastDirectionChange s > 3000 + rnd 0 * 2000 then
        (let (validPosition, k) =
               findValidPosition (obstacles_of s) rnd 1 (vx (robot_position s))
                 (vz (robot_position s)) defaultMaxAttempts
         in (s\<lparr>targetPosition := Vector3 (fst validPosition) 0 (snd validPosition),
                lastDirectionChange := currentTime,
                isMoving := True\<rparr>, k))
      else (s, 1))"

text \<open>
  The second part (lines 3062-3125): the move towards the target. The rotation of the
  wheels and of the robot body does not feed back into positions and is left out.
\<close>

definition moveStep :: "(nat \<Rightarrow> real) \<Rightarrow> nat \<Rightarrow> state \<Rightarrow> state" where
  "moveStep rnd k s =
     (if isMoving s then
        (let dx = vx (targetPosition s) - vx (robot_position s);
             dz = vz (targetPosition s) - vz (robot_position s);
             distance = sqrt (dx * dx + dz * dz)
         in if distance > 1 then
              (let moveX = (dx / distance) * moveSpeed s;
                   moveZ = (dz / distance) * moveSpeed s;
                   nextX = vx (robot_position s) + moveX;
                   nextZ = vz (robot_position s) + moveZ
               in if \<not> checkCollision (obstacles_of s) nextX nextZ defaultRobotRadius then
                    s\<lparr>robot_position := Vector3 nextX (vy (robot_position s)) nextZ\<rparr>
                  else
                    (let (validPosition, k') =
                           findValidPosition (obstacles_of s) rnd k (vx (robot_position s))
                             (vz (robot_position s)) defaultMaxAttempts
                     in s\<lparr>targetPosition :=
                            Vector3 (fst validPosition) 0 (snd validPosition)\<rparr>))
            else s\<lparr>isMoving := False\<rparr>)
      else s)"

definition updateRobotMovement :: "real \<Rightarrow> (nat \<Rightarrow> real) \<Rightarrow> state \<Rightarrow> state" where
  "updateRobotMovement currentTime rnd s =
     (if robotInteractionMode s then s
      else (let (s1, k) = retargetStep currentTime rnd s in moveStep rnd k s1))"

text \<open>
  The distance to the target and the proposed next position, the source's \<open>distance\<close>
  and \<open>(nextX, nextZ)\<close>, as functions of the state: the theorems name them.
\<close>

definition targetDistance :: "state \<Rightarrow> real" where
  "targetDistance s =
     sqrt ((vx (targetPosition s) - vx (robot_position s))
             * (vx (targetPosition s) - vx (robot_position s))
           + (vz (targetPosition s) - vz (robot_position s))
             * (vz (targetPosition s) - vz (robot_position s)))"

definition nextPosition :: "state \<Rightarrow> real \<times> real" where
  "nextPosition s =
     (vx (robot_position s)
        + ((vx (targetPosition s) - vx (robot_position s)) / targetDistance s) * moveSpeed s,
      vz (robot_position s)
        + ((vz (targetPosition s) - vz (robot_position s)) / targetDistance s) * moveSpeed s)"

section \<open>Hologram focus\<close>

text \<open>The table \<open>screenPositions\<close> of \<open>focusOnHologramScreen\<close> and its sections.\<close>

definition screenPositions :: "vec3 list" where
  "screenPositions = [Vector3 (-25) 10 0, Vector3 0 10 (-30), Vector3 25 10 0, Vector3 0 10 25]"

definition screenSections :: "navSection list" where
  "screenSections = [About, Projects, Skills, Contact]"

text \<open>\<open>getFrontCameraPosition\<close> (InteractiveElements.js, lines 1525-1559).\<close>

definition getFrontCameraPosition :: "int \<Rightarrow> vec3 \<Rightarrow> vec3" where
  "getFrontCameraPosition screenIndex screenPosition =
     (let frontDistance = 12;
          frontPositions =
            [Vector3 (vx screenPosition + frontDistance) (vy screenPosition) (vz screenPosition),
             Vector3 (vx screenPosition) (vy screenPosition) (vz screenPosition + frontDistance),
             Vector3 (vx screenPosition - frontDistance) (vy screenPosition) (vz screenPosition),
             Vector3 (vx screenPosition) (vy screenPosition) (vz screenPosition - frontDistance)]
      in if 0 \<le> screenIndex \<and> screenIndex < 4 then frontPositions ! nat screenIndex
         else Vector3 0 10 15)"

text \<open>\<open>deactivateHologram\<close> (lines 1561-1571).\<close>

definition deactivateHologram :: "state \<Rightarrow> state" where
  "deactivateHologram s = s\<lparr>isHologramActive := False, activeHologramIndex := -1\<rparr>"

text \<open>
  \<open>focusOnHologramScreen\<close> (lines 1422-1523). The camera pose is not saved here:
  the function writes neither \<open>originalCameraPosition\<close> nor \<open>originalCameraTarget\<close>.
\<close>

definition focusOnHologramScreen :: "int \<Rightarrow> real \<Rightarrow> state \<Rightarrow> error + state" where
  "focusOnHologramScreen screenIndex now s =
     andThen (autoClosePhoneHologram now s) (\<lambda>s1.
       let s2 = (if robotInteractionMode s1 then deactivateRobotHelpMode now s1 else s1)
       in if screenIndex \<ge> 0 \<and> screenIndex < int (length screenPositions) then
            (let targetPosition = screenPositions ! nat screenIndex;
                 sectionName = screenSections ! nat screenIndex;
                 s3 = s2\<lparr>currentSection := sectionName,
                          activeHologramIndex := screenIndex,
                          isHologramActive := False\<rparr>;
                 frontCameraPosition = getFrontCameraPosition screenIndex targetPosition;
                 s4 = gsap_to \<lparr>tw_target = CameraPosition, tw_to = frontCameraPosition,
                                tw_end = now + 2000, tw_onComplete = NoCallback\<rparr> s3
             in Inr (gsap_to \<lparr>tw_target = ControlsTarget, tw_to = targetPosition,
                              tw_end = now + 2000,
                              tw_onComplete = ActivateTracking screenIndex\<rparr> s4))
          else Inr s2)"

text \<open>\<open>returnToDefaultView\<close> (lines 1651-1699).\<close>

definition returnToDefaultView :: "real \<Rightarrow> state \<Rightarrow> error + state" where
  "returnToDefaultView now s =
     andThen (autoClosePhoneHologram now s) (\<lambda>s1.
       let s2 = (if robotInteractionMode s1 then deactivateRobotHelpMode now s1 else s1);
           s3 = deactivateHologram (s2\<lparr>currentSection := Home\<rparr>);
           s4 = gsap_to \<lparr>tw_target = CameraPosition, tw_to = Vector3 0 8 12,
                          tw_end = now + 2000, tw_onComplete = NoCallback\<rparr> s3
       in Inr (gsap_to \<lparr>tw_target = ControlsTarget, tw_to = Vector3 0 5 (-1.5),
                        tw_end = now + 2000, tw_onComplete = DefaultViewReached\<rparr> s4))"

text \<open>
  \<open>navigateToSection\<close> (lines 661-699). For a section outside the table,
  \<open>NavigationManager.navigateTo\<close> finds no viewpoint and returns.
\<close>

definition navigateToSection :: "navSection \<Rightarrow> real \<Rightarrow> state \<Rightarrow> error + state" where
  "navigateToSection sec now s =
     (if currentSection s = sec \<or> \<not> isLoaded s then Inr s
      else
        let s1 = s\<lparr>currentSection := sec\<rparr>
        in case sec of
             Home \<Rightarrow> returnToDefaultView now s1
           | About \<Rightarrow> focusOnHologramScreen 0 now s1
           | Projects \<Rightarrow> focusOnHologramScreen 1 now s1
           | Skills \<Rightarrow> focusOnHologramScreen 2 now s1
           | Contact \<Rightarrow> focusOnHologramScreen 3 now s1
           | OtherSection \<Rightarrow> Inr s1)"

text \<open>\<open>isCameraTargetOnHologram\<close> (lines 1716-1738).\<close>

definition isCameraTargetOnHologram :: "int \<Rightarrow> state \<Rightarrow> bool" where
  "isCameraTargetOnHologram screenIndex s =
     (if screenIndex \<ge> 0 \<and> screenIndex < int (length screenPositions) then
        (let screenPos = screenPositions ! nat screenIndex;
             distance = distanceTo screenPos (controls_target s);
             threshold = 8
         in distance \<le> threshold)
      else False)"

section \<open>Pointer clicks\<close>

text \<open>
  Ray casting is done by three.js against the scene graph. A click is given by the
  results of the intersection tests that \<open>onHologramClick\<close> makes, in its order:
  the distance dragged since mouse-down; the button type found from the robot's
  button children; a hit of the help text and the pointer's \<open>mouse.x\<close>; hits of the
  yes and no buttons of \<open>getRobotButtons\<close>; hits of the robot and of the phone; the
  objects hit on the phone hologram, nearest first; a hit of a visible back button; a
  hit of a details button; the index found by \<open>findScreenIndex\<close> for a hit hologram
  screen (\<open>- 1\<close> when the object belongs to no screen, \<open>None\<close> when no screen is hit).
\<close>

datatype buttonType = Yes | No

datatype holoHit = NotClickable | CloseButton | LinkButton

record click =
  dragDistance :: real
  buttonChildHit :: "buttonType option"
  helpTextHit :: bool
  mouseX :: real
  yesButtonHit :: bool
  noButtonHit :: bool
  robotHit :: bool
  phoneHit :: bool
  hologramHits :: "holoHit list"
  backButtonHit :: bool
  detailsButtonHit :: bool
  screenHit :: "int option"

definition dragThreshold :: real where
  "dragThreshold = 5"

text \<open>
  The block \<open>if (this.cyberpunkOffice.robotInteractionMode)\<close> (lines 1132-1264).
  Every branch that returns calls \<open>deactivateRobotHelpMode\<close> (the branches for
  \<open>yes\<close> also open the tutorial modal). \<open>None\<close>: the block falls through.
\<close>

definition robotButtonsClick :: "click \<Rightarrow> real \<Rightarrow> state \<Rightarrow> state option" where
  "robotButtonsClick c now s =
     (case buttonChildHit c of
        Some Yes \<Rightarrow> Some (deactivateRobotHelpMode now s)
      | Some No \<Rightarrow> Some (deactivateRobotHelpMode now s)
      | None \<Rightarrow>
          if helpTextHit c then
            (if mouseX c < 0 then Some (deactivateRobotHelpMode now s)
             else Some (deactivateRobotHelpMode now s))
          else if yesNoVisible s \<and> yesButtonHit c then Some (deactivateRobotHelpMode now s)
          else if yesNoVisible s \<and> noButtonHit c then Some (deactivateRobotHelpMode now s)
          else None)"

text \<open>
  The loop over the objects hit on the phone hologram (lines 1321-1343): the first
  clickable object decides.
\<close>

fun firstClickable :: "holoHit list \<Rightarrow> holoHit option" where
  "firstClickable [] = None"
| "firstClickable (NotClickable # hits) = firstClickable hits"
| "firstClickable (hit # hits) = Some hit"

definition phoneHologramClick :: "click \<Rightarrow> real \<Rightarrow> state \<Rightarrow> (error + state) option" where
  "phoneHologramClick c now s =
     (case firstClickable (hologramHits c) of
        None \<Rightarrow> None
      | Some CloseButton \<Rightarrow> Some (exitPhoneMode now s)
      | Some hit \<Rightarrow> Some (Inr s))"

text \<open>\<open>onHologramClick\<close> (lines 1108-1400).\<close>

definition onHologramClick :: "click \<Rightarrow> real \<Rightarrow> state \<Rightarrow> error + state" where
  "onHologramClick c now s =
     (if \<not> isLoaded s then Inr s
      else if dragDistance c > dragThreshold then Inr s
      else
        case (if robotInteractionMode s then robotButtonsClick c now s else None) of
          Some s' \<Rightarrow> Inr s'
        | None \<Rightarrow>
            if \<not> robotInteractionMode s \<and> robotHit c then
              andThen (autoClosePhoneHologram now s) (\<lambda>s1. Inr (activateRobotHelpMode now s1))
            else if phoneHit c then handlePhoneClick now s
            else
              case (if phoneHologram s = Some True then phoneHologramClick c now s else None) of
                Some r \<Rightarrow> r
              | None \<Rightarrow>
                  if backButtonHit c then returnToDefaultView now s
                  else if detailsButtonHit c then Inr s
                  else
                    (case screenHit c of
                       None \<Rightarrow> Inr s
                     | Some screenIndex \<Rightarrow>
                         if screenIndex \<noteq> -1 then focusOnHologramScreen screenIndex now s
                         else Inr s))"

section \<open>The frame loop and the events\<close>

text \<open>
  \<open>animate\<close> (lines 1754-1812): \<open>cyberpunkOffice.update()\<close> moves the robot, then
  the auto-close test of the help mode, then the tracking test of the active hologram.
  One clock value stands for the calls of \<open>Date.now()\<close> within a frame.
\<close>

definition animate :: "real \<Rightarrow> (nat \<Rightarrow> real) \<Rightarrow> state \<Rightarrow> state" where
  "animate now rnd s =
     (let s1 = updateRobotMovement now rnd s;
          s2 = (if robotInteractionMode s1 then
                  (if shouldAutoCloseRobotHelp now s1 then deactivateRobotHelpMode now s1
                   else s1)
                else s1)
      in if isHologramActive s2 \<and> activeHologramIndex s2 \<ge> 0 then
           (if isCameraTargetOnHologram (activeHologramIndex s2) s2 then s2
            else deactivateHologram s2)
         else s2)"

text \<open>
  What can happen to the page: a click, a press of a navigation button, the Escape key
  (lines 619-623), an animation frame (gsap's tick, then \<open>animate\<close>), a timer tick,
  and a camera move by OrbitControls or by a tween in flight.
\<close>

datatype event =
    Click click real
  | Navigate navSection real
  | EscapeKey
  | Frame real "nat \<Rightarrow> real"
  | Timeout real
  | CameraMoved vec3 vec3

fun step :: "event \<Rightarrow> state \<Rightarrow> error + state" where
  "step (Click c now) s = onHologramClick c now s"
| "step (Navigate sec now) s = navigateToSection sec now s"
| "step EscapeKey s = Inr (if isHologramActive s then deactivateHologram s else s)"
| "step (Frame now rnd) s = Inr (animate now rnd (gsapTick now s))"
| "step (Timeout now) s = Inr (runTimeouts now s)"
| "step (CameraMoved p q) s = Inr (s\<lparr>camera_position := p, controls_target := q\<rparr>)"

fun run :: "event list \<Rightarrow> state \<Rightarrow> error + state" where
  "run [] s = Inr s"
| "run (ev # evs) s = andThen (step ev s) (run evs)"

text \<open>
  The state once the scene is loaded (constructors, \<open>setupCamera\<close>, \<open>setupControls\<close>,
  \<open>createRobot\<close>). The robot starts at the point that \<open>findValidPosition(-25, 20)\<close>
  returned, given here as \<open>(startX, startZ)\<close>.
\<close>

definition initialState :: "real \<Rightarrow> real \<Rightarrow> bool \<Rightarrow> state" where
  "initialState startX startZ ow =
     \<lparr>isLoaded = True, currentSection = Home, activeHologramIndex = -1,
      isHologramActive = False, camera_position = Vector3 0 8 12,
      controls_target = Vector3 0 5 (-1.5), obstacles_of = obstacles,
      robotInteractionMode = False, robotHelpModeStartTime = None,
      originalCameraPosition = None, originalCameraTarget = None,
      phoneInteractionMode = False, phoneHologram = None,
      robot_position = Vector3 startX 0 startZ, isMoving = False,
      targetPosition = Vector3 startX 0 startZ, moveSpeed = 0.03,
      lastDirectionChange = 0, yesNoVisible = False, tweens = [], timers = [],
      overwriteDefault = ow\<rparr>"

text \<open>A click that hits nothing, to be updated field by field.\<close>

definition noHit :: click where
  "noHit = \<lparr>dragDistance = 0, buttonChildHit = None, helpTextHit = False, mouseX = 0,
            yesButtonHit = False, noButtonHit = False, robotHit = False, phoneHit = False,
            hologramHits = [], backButtonHit = False, detailsButtonHit = False,
            screenHit = None\<rparr>"

section \<open>Observers used by the specification\<close>

text \<open>
  The three non-default focus modes as the state holds them: a hologram is focused
  while \<open>activeHologramIndex\<close> is not \<open>- 1\<close>.
\<close>

definition hologramFocus :: "state \<Rightarrow> bool" where
  "hologramFocus s = (activeHologramIndex s \<noteq> -1)"

definition activeModeCount :: "state \<Rightarrow> nat" where
  "activeModeCount s =
     (if hologramFocus s then 1 else 0) + (if robotInteractionMode s then 1 else 0)
       + (if phoneInteractionMode s then 1 else 0)"

text \<open>The destination of the newest pending tween of an object, if there is one.\<close>

definition destinationOf :: "tweenTarget \<Rightarrow> state \<Rightarrow> vec3 option" where
  "destinationOf obj s =
     (case filter (\<lambda>tw. tw_target tw = obj) (tweens s) of
        [] \<Rightarrow> None
      | tws \<Rightarrow> Some (tw_to (last tws)))"

text \<open>
  What an operation may do to the retarget clock: nothing (and it registers no timer and
  leaves the help mode as it is), or it leaves the help mode and sets the clock to 0.
\<close>

definition quietOrHelpExit :: "state \<Rightarrow> state \<Rightarrow> bool" where
  "quietOrHelpExit s s' =
     ((lastDirectionChange s' = lastDirectionChange s \<and> set (timers s') \<subseteq> set (timers s)
       \<and> robotInteractionMode s' = robotInteractionMode s)
      \<or> (robotInteractionMode s \<and> \<not> robotInteractionMode s' \<and> lastDirectionChange s' = 0))"




fun gsapTicks :: "real list \<Rightarrow> state \<Rightarrow> state" where
  "gsapTicks [] s = s"
| "gsapTicks (T # Ts) s = gsapTicks Ts (gsapTick T s)"

section \<open>Example states and inputs\<close>

text \<open>
  Concrete inputs at which the theorems below are evaluated: the robot on its way from
  \<open>(20, 20)\<close> to \<open>(30, 20)\<close>; the robot next to the main desk, heading into it;
  sequences of results of \<open>Math.random()\<close>; the help mode entered at time 1000 and
  left at time 9000; the phone mode entered from the help mode after a camera move; the
  default mode with the camera moved away from its initial pose; the idle robot whose
  last change of direction was at time 1000; the help mode and the phone mode entered at
  time 1000 with the camera at \<open>(1, 2, 3)\<close> and the camera moved to \<open>(9, 9, 9)\<close>
  afterwards.
\<close>

definition movingState :: state where
  "movingState =
     (initialState 20 20 False)\<lparr>isMoving := True, targetPosition := Vector3 30 0 20,
                                lastDirectionChange := 1000\<rparr>"

definition blockedState :: state where
  "blockedState =
     (initialState (-9.02) 0 False)\<lparr>isMoving := True, targetPosition := Vector3 0.98 0 0,
                                   lastDirectionChange := 1000\<rparr>"

definition sampleDraws :: "nat \<Rightarrow> real" where
  "sampleDraws n = (if n = 1 then 5/6 else 3/4)"

definition secondTryDraws :: "nat \<Rightarrow> real" where
  "secondTryDraws n = (if n < 2 then 1/2 else 3/4)"

definition helpState :: state where
  "helpState = activateRobotHelpMode 1000 (initialState 20 20 False)"

definition overwrittenState :: state where
  "overwrittenState =
     enterPhoneMode 2000 (helpState\<lparr>camera_position := Vector3 1 2 3,
                                   controls_target := Vector3 4 5 6\<rparr>)"

definition movedState :: state where
  "movedState =
     (initialState 20 20 False)\<lparr>camera_position := Vector3 1 2 3,
                                controls_target := Vector3 4 5 6\<rparr>"

definition exitedHelpState :: state where
  "exitedHelpState = deactivateRobotHelpMode 9000 helpState"

definition idleState :: state where
  "idleState = (initialState 20 20 False)\<lparr>lastDirectionChange := 1000\<rparr>"



section \<open>Properties of the collision query\<close>

lemma checkObstacles_iff:
  "checkObstacles obs x z r = list_ex (\<lambda>ob. intersectsObstacle ob x z r) obs"
  by (induction obs) auto

lemma intersectsObstacle_open: "intersectsObstacle ob x z r = overlapsOpen ob x z r"
  by (auto simp: intersectsObstacle_def overlapsOpen_def Let_def)

lemmas collision_eval = checkCollision_def intersectsObstacle_def sceneBoundary_def
  defaultRobotRadius_def obstacles_def

lemma blocked_at_origin: "checkCollision obstacles 0 0 defaultRobotRadius"
  by (simp add: collision_eval)

text \<open>
  C7 (as amended). \<open>checkCollision\<close> is true exactly when the square footprint of side
  \<open>2 * robotRadius\<close> centred at \<open>(x, z)\<close> overlaps some obstacle rectangle under the
  open-interval (strict) overlap test, where touching boundaries do not count, or when
  \<open>|x| > 40\<close> or \<open>|z| > 40\<close>. It is a function of its arguments alone.
\<close>

theorem checkCollision_open_overlap:
  "checkCollision obs x z r =
     (list_ex (\<lambda>ob. overlapsOpen ob x z r) obs \<or> \<bar>x\<bar> > 40 \<or> \<bar>z\<bar> > 40)"
  by (simp add: checkCollision_def checkObstacles_iff intersectsObstacle_open sceneBoundary_def)

theorem checkCollision_open_overlap_witness:
  "checkCollision obstacles 9 0 2 = True \<and> checkCollision obstacles (-9) 0 2 = False
   \<and> checkCollision obstacles 41 0 2 = True"
  using checkCollision_open_overlap [of obstacles 9 0 2]
    checkCollision_open_overlap [of obstacles "-9" 0 2]
    checkCollision_open_overlap [of obstacles 41 0 2]
  by (simp add: obstacles_def overlapsOpen_def)

text \<open>
  C7 (as stated) fails: at \<open>(-9, 0)\<close> with radius 2 the footprint \<open>[-11, -7] \<times> [-2, 2]\<close>
  touches the main desk \<open>[-7, 7] \<times> [-4, 4]\<close> along \<open>x = -7\<close>. The closed-interval test of
  the specification reports an overlap, \<open>checkCollision\<close> does not.
\<close>

theorem checkCollision_closed_counterexample:
  "isBlocked_spec obstacles (-9) 0 2 \<and> \<not> checkCollision obstacles (-9) 0 2"
  by (simp add: isBlocked_spec_def overlapsClosed_def obstacles_def checkCollision_def
      intersectsObstacle_def sceneBoundary_def)

section \<open>Properties of findValidPosition\<close>

lemma candidate_shift: "candidate rnd (Suc (Suc k)) i = candidate rnd k (Suc i)"
  by (simp add: candidate_def)

lemma candidateBlocked_shift:
  "candidateBlocked obs rnd (Suc (Suc k)) i = candidateBlocked obs rnd k (Suc i)"
  by (simp only: candidateBlocked_def candidate_shift)

lemma candidateBlocked_0:
  "candidateBlocked obs rnd k 0 =
     checkCollision obs ((rnd k - 0.5) * 60) ((rnd (k + 1) - 0.5) * 60) defaultRobotRadius"
  by (simp add: candidateBlocked_def candidate_def)

lemma findValidLoop_exhausted:
  "(\<And>i. i < n \<Longrightarrow> candidateBlocked obs rnd k i) \<Longrightarrow>
     findValidLoop obs rnd k n cx cz = ((cx, cz), k + 2 * n)"
proof (induction n arbitrary: k)
  case 0
  show ?case by simp
next
  case (Suc n)
  have b0: "candidateBlocked obs rnd k 0" using Suc.prems by simp
  have rest: "\<And>i. i < n \<Longrightarrow> candidateBlocked obs rnd (k + 2) i"
    using Suc.prems by (simp add: candidateBlocked_shift)
  have "findValidLoop obs rnd (k + 2) n cx cz = ((cx, cz), k + 2 + 2 * n)"
    using Suc.IH [OF rest] by simp
  with b0 show ?case by (simp add: candidateBlocked_0 Let_def)
qed

lemma findValidLoop_first_free:
  "i < n \<Longrightarrow> (\<And>j. j < i \<Longrightarrow> candidateBlocked obs rnd k j) \<Longrightarrow>
   \<not> candidateBlocked obs rnd k i \<Longrightarrow>
     findValidLoop obs rnd k n cx cz = (candidate rnd k i, k + 2 * (i + 1))"
proof (induction n arbitrary: k i)
  case 0
  then show ?case by simp
next
  case (Suc n)
  show ?case
  proof (cases i)
    case 0
    with Suc.prems(3) show ?thesis
      by (simp add: candidateBlocked_0 Let_def candidate_def)
  next
    case (Suc i')
    have b0: "candidateBlocked obs rnd k 0" using Suc.prems(2) Suc by simp
    have lt: "i' < n" using Suc.prems(1) Suc by simp
    have rest: "\<And>j. j < i' \<Longrightarrow> candidateBlocked obs rnd (k + 2) j"
      using Suc.prems(2) Suc by (simp add: candidateBlocked_shift)
    have free: "\<not> candidateBlocked obs rnd (k + 2) i'"
      using Suc.prems(3) Suc by (simp add: candidateBlocked_shift)
    have "findValidLoop obs rnd (k + 2) n cx cz = (candidate rnd (k + 2) i', k + 2 + 2 * (i' + 1))"
      using Suc.IH [OF lt rest free] by simp
    with b0 Suc show ?thesis
      by (simp add: candidateBlocked_0 Let_def candidate_shift)
  qed
qed

lemma findValidLoop_draws: "snd (findValidLoop obs rnd k n cx cz) \<le> k + 2 * n"
proof (induction n arbitrary: k)
  case 0
  show ?case by simp
next
  case (Suc n)
  have "snd (findValidLoop obs rnd (Suc (Suc k)) n cx cz) \<le> Suc (Suc k) + 2 * n"
    by (rule Suc.IH)
  then show ?case by (simp add: Let_def)
qed

lemma candidate_range:
  "0 \<le> rnd (k + 2 * i) \<Longrightarrow> rnd (k + 2 * i) < 1 \<Longrightarrow> 0 \<le> rnd (k + 2 * i + 1) \<Longrightarrow> rnd (k + 2 * i + 1) < 1 \<Longrightarrow>
   -30 \<le> fst (candidate rnd k i) \<and> fst (candidate rnd k i) < 30 \<and>
   -30 \<le> snd (candidate rnd k i) \<and> snd (candidate rnd k i) < 30"
  by (simp add: candidate_def)

lemma findValid_all_half:
  "findValidPosition obstacles (\<lambda>n. 1/2) k cx cz m = ((cx, cz), k + 2 * m)"
  unfolding findValidPosition_def
  by (rule findValidLoop_exhausted) (simp add: candidateBlocked_def candidate_def blocked_at_origin)

lemma findValid_first_free:
  "\<not> checkCollision obs ((rnd k - 0.5) * 60) ((rnd (k + 1) - 0.5) * 60) defaultRobotRadius \<Longrightarrow>
   findValidPosition obs rnd k cx cz defaultMaxAttempts
     = (((rnd k - 0.5) * 60, (rnd (k + 1) - 0.5) * 60), k + 2)"
  by (simp add: findValidPosition_def defaultMaxAttempts_def eval_nat_numeral Let_def)

lemma sample_target:
  "findValidPosition obstacles sampleDraws (Suc 0) 20 20 defaultMaxAttempts = ((20, 15), 3)"
proof -
  have free: "\<not> checkCollision obstacles 20 15 defaultRobotRadius"
    by (simp add: collision_eval)
  then show ?thesis
    using findValid_first_free [of obstacles sampleDraws "Suc 0" 20 20]
    by (simp add: sampleDraws_def)
qed

text \<open>
  C6. \<open>findValidPosition\<close> tries the candidate points one after the other, each
  drawn as \<open>((r - 0.5) * 60, (r' - 0.5) * 60)\<close> from two results of
  \<open>Math.random()\<close> and so inside \<open>[-30, 30]\<close> in both coordinates. It returns the
  first candidate that \<open>checkCollision\<close> does not block, after \<open>i + 1\<close> attempts
  when that is candidate \<open>i < maxAttempts\<close>; when all \<open>maxAttempts\<close> candidates are
  blocked it returns \<open>(nearX, nearZ)\<close> unchanged after exactly \<open>maxAttempts\<close>
  attempts. It never evaluates more than \<open>maxAttempts\<close> candidates, and it is total:
  no branch raises.
\<close>

theorem findValidPosition_first_fit:
  "(i < maxAttempts \<and> (\<forall>j<i. candidateBlocked obs rnd k j) \<and> \<not> candidateBlocked obs rnd k i
      \<longrightarrow> findValidPosition obs rnd k nearX nearZ maxAttempts = (candidate rnd k i, k + 2 * (i + 1)))
   \<and> ((\<forall>j<maxAttempts. candidateBlocked obs rnd k j)
      \<longrightarrow> findValidPosition obs rnd k nearX nearZ maxAttempts = ((nearX, nearZ), k + 2 * maxAttempts))
   \<and> ((\<forall>n. 0 \<le> rnd n \<and> rnd n < 1)
      \<longrightarrow> -30 \<le> fst (candidate rnd k i) \<and> fst (candidate rnd k i) \<le> 30
          \<and> -30 \<le> snd (candidate rnd k i) \<and> snd (candidate rnd k i) \<le> 30)
   \<and> snd (findValidPosition obs rnd k nearX nearZ maxAttempts) \<le> k + 2 * maxAttempts"
proof (intro conjI impI)
  assume a: "i < maxAttempts \<and> (\<forall>j<i. candidateBlocked obs rnd k j) \<and> \<not> candidateBlocked obs rnd k i"
  then show "findValidPosition obs rnd k nearX nearZ maxAttempts = (candidate rnd k i, k + 2 * (i + 1))"
    unfolding findValidPosition_def by (intro findValidLoop_first_free) auto
next
  assume "\<forall>j<maxAttempts. candidateBlocked obs rnd k j"
  then show "findValidPosition obs rnd k nearX nearZ maxAttempts = ((nearX, nearZ), k + 2 * maxAttempts)"
    unfolding findValidPosition_def by (intro findValidLoop_exhausted) auto
next
  assume r: "\<forall>n. 0 \<le> rnd n \<and> rnd n < 1"
  have "0 \<le> rnd (k + 2 * i)" "rnd (k + 2 * i) < 1" "0 \<le> rnd (k + 2 * i + 1)" "rnd (k + 2 * i + 1) < 1"
    using r by auto
  from candidate_range [OF this]
  show "-30 \<le> fst (candidate rnd k i)" "fst (candidate rnd k i) \<le> 30"
    "-30 \<le> snd (candidate rnd k i)" "snd (candidate rnd k i) \<le> 30" by auto
next
  show "snd (findValidPosition obs rnd k nearX nearZ maxAttempts) \<le> k + 2 * maxAttempts"
    unfolding findValidPosition_def by (rule findValidLoop_draws)
qed

theorem findValidPosition_first_fit_witness:
  "findValidPosition obstacles (\<lambda>n. 1/2) 0 (-25) 20 10 = ((-25, 20), 20)
   \<and> findValidPosition obstacles secondTryDraws 0 (-25) 20 10 = ((15, 15), 4)
   \<and> fst (candidate secondTryDraws 0 1) \<le> 30"
  using findValidPosition_first_fit [where i=1 and maxAttempts=10 and obs=obstacles
      and rnd=secondTryDraws and k=0 and nearX="-25" and nearZ=20]
    findValidPosition_first_fit [where i=1 and maxAttempts=10 and obs=obstacles
      and rnd="\<lambda>n. 1/2" and k=0 and nearX="-25" and nearZ=20]
  by (simp add: candidateBlocked_def candidate_def secondTryDraws_def collision_eval)

section \<open>Properties of the robot movement\<close>

lemma retargetStep_fields:
  "robot_position (fst (retargetStep now rnd s)) = robot_position s"
  "obstacles_of (fst (retargetStep now rnd s)) = obstacles_of s"
  "moveSpeed (fst (retargetStep now rnd s)) = moveSpeed s"
  "robotInteractionMode (fst (retargetStep now rnd s)) = robotInteractionMode s"
  by (simp_all add: retargetStep_def split: prod.splits)

lemma retargetStep_fires:
  "now - lastDirectionChange s > 3000 + rnd 0 * 2000 \<Longrightarrow>
   retargetStep now rnd s =
     (let r = findValidPosition (obstacles_of s) rnd 1 (vx (robot_position s))
                (vz (robot_position s)) defaultMaxAttempts
      in (s\<lparr>targetPosition := Vector3 (fst (fst r)) 0 (snd (fst r)),
             lastDirectionChange := now, isMoving := True\<rparr>, snd r))"
  by (simp add: retargetStep_def Let_def split: prod.splits)

lemma retargetStep_idle:
  "\<not> now - lastDirectionChange s > 3000 + rnd 0 * 2000 \<Longrightarrow> retargetStep now rnd s = (s, 1)"
  by (simp add: retargetStep_def)

lemma moveStep_fields:
  "obstacles_of (moveStep rnd k s) = obstacles_of s"
  "lastDirectionChange (moveStep rnd k s) = lastDirectionChange s"
  "robotInteractionMode (moveStep rnd k s) = robotInteractionMode s"
  by (simp_all add: moveStep_def Let_def split: prod.splits)

lemma moveStep_isMoving: "isMoving (moveStep rnd k s) \<Longrightarrow> isMoving s"
  by (simp add: moveStep_def Let_def split: prod.splits if_splits)

lemma moveStep_commit:
  "robot_position (moveStep rnd k s) \<noteq> robot_position s \<Longrightarrow>
   \<not> checkCollision (obstacles_of s) (vx (robot_position (moveStep rnd k s)))
        (vz (robot_position (moveStep rnd k s))) defaultRobotRadius"
  by (simp add: moveStep_def Let_def split: prod.splits if_splits)

lemma moveStep_blocked:
  "isMoving s \<Longrightarrow> targetDistance s > 1 \<Longrightarrow>
   checkCollision (obstacles_of s) (fst (nextPosition s)) (snd (nextPosition s)) defaultRobotRadius \<Longrightarrow>
   moveStep rnd k s =
     s\<lparr>targetPosition :=
         Vector3 (fst (fst (findValidPosition (obstacles_of s) rnd k (vx (robot_position s))
                    (vz (robot_position s)) defaultMaxAttempts))) 0
                 (snd (fst (findValidPosition (obstacles_of s) rnd k (vx (robot_position s))
                    (vz (robot_position s)) defaultMaxAttempts)))\<rparr>"
  by (simp add: moveStep_def targetDistance_def nextPosition_def Let_def split: prod.splits)

lemma moveStep_free:
  "isMoving s \<Longrightarrow> targetDistance s > 1 \<Longrightarrow>
   \<not> checkCollision (obstacles_of s) (fst (nextPosition s)) (snd (nextPosition s)) defaultRobotRadius \<Longrightarrow>
   moveStep rnd k s =
     s\<lparr>robot_position := Vector3 (fst (nextPosition s)) (vy (robot_position s)) (snd (nextPosition s))\<rparr>"
  by (simp add: moveStep_def targetDistance_def nextPosition_def Let_def split: prod.splits)

lemma moveStep_stays_or_arrives:
  "isMoving s \<Longrightarrow> isMoving (moveStep rnd k s) \<or> targetDistance (moveStep rnd k s) \<le> 1"
  by (simp add: moveStep_def targetDistance_def Let_def split: prod.splits)

lemma updateRobotMovement_eq:
  "\<not> robotInteractionMode s \<Longrightarrow>
   updateRobotMovement now rnd s = moveStep rnd (snd (retargetStep now rnd s)) (fst (retargetStep now rnd s))"
  by (simp add: updateRobotMovement_def split: prod.splits)

text \<open>
  C3. Whenever \<open>updateRobotMovement\<close> changes the robot's position, the new position
  is not blocked for \<open>checkCollision\<close> with the default robot radius. When the robot
  is moving, is further than one unit from its target and its proposed next position is
  blocked, the position stays as it was in this tick and the target is replaced by the
  result of \<open>findValidPosition\<close>.
\<close>

theorem committed_move_is_collision_free:
  "(robot_position (updateRobotMovement now rnd s) \<noteq> robot_position s \<longrightarrow>
      \<not> checkCollision (obstacles_of (updateRobotMovement now rnd s))
           (vx (robot_position (updateRobotMovement now rnd s)))
           (vz (robot_position (updateRobotMovement now rnd s))) defaultRobotRadius)
   \<and> (\<not> robotInteractionMode s \<and> isMoving (fst (retargetStep now rnd s))
        \<and> targetDistance (fst (retargetStep now rnd s)) > 1
        \<and> checkCollision (obstacles_of s) (fst (nextPosition (fst (retargetStep now rnd s))))
             (snd (nextPosition (fst (retargetStep now rnd s)))) defaultRobotRadius \<longrightarrow>
      robot_position (updateRobotMovement now rnd s) = robot_position s
      \<and> targetPosition (updateRobotMovement now rnd s) =
          Vector3 (fst (fst (findValidPosition (obstacles_of s) rnd (snd (retargetStep now rnd s))
                     (vx (robot_position s)) (vz (robot_position s)) defaultMaxAttempts))) 0
                  (snd (fst (findValidPosition (obstacles_of s) rnd (snd (retargetStep now rnd s))
                     (vx (robot_position s)) (vz (robot_position s)) defaultMaxAttempts))))"
proof (cases "robotInteractionMode s")
  case True
  then show ?thesis by (simp add: updateRobotMovement_def)
next
  case False
  let ?s1 = "fst (retargetStep now rnd s)"
  let ?k = "snd (retargetStep now rnd s)"
  have eq: "updateRobotMovement now rnd s = moveStep rnd ?k ?s1"
    using False by (rule updateRobotMovement_eq)
  have commit: "robot_position (moveStep rnd ?k ?s1) \<noteq> robot_position s \<longrightarrow>
      \<not> checkCollision (obstacles_of (moveStep rnd ?k ?s1))
           (vx (robot_position (moveStep rnd ?k ?s1)))
           (vz (robot_position (moveStep rnd ?k ?s1))) defaultRobotRadius"
    using moveStep_commit [of rnd ?k ?s1]
    by (simp add: retargetStep_fields moveStep_fields)
  have blocked: "isMoving ?s1 \<and> targetDistance ?s1 > 1
        \<and> checkCollision (obstacles_of s) (fst (nextPosition ?s1)) (snd (nextPosition ?s1))
             defaultRobotRadius \<longrightarrow>
      robot_position (moveStep rnd ?k ?s1) = robot_position s
      \<and> targetPosition (moveStep rnd ?k ?s1) =
          Vector3 (fst (fst (findValidPosition (obstacles_of s) rnd ?k
                     (vx (robot_position s)) (vz (robot_position s)) defaultMaxAttempts))) 0
                  (snd (fst (findValidPosition (obstacles_of s) rnd ?k
                     (vx (robot_position s)) (vz (robot_position s)) defaultMaxAttempts)))"
    using moveStep_blocked [of ?s1 rnd ?k]
    by (auto simp: retargetStep_fields)
  show ?thesis unfolding eq using commit blocked by blast
qed

theorem committed_move_witness:
  "robot_position (updateRobotMovement 2000 (\<lambda>n. 1/2) movingState) = Vector3 20.03 0 20
   \<and> \<not> checkCollision obstacles 20.03 20 defaultRobotRadius
   \<and> robot_position (updateRobotMovement 2000 (\<lambda>n. 1/2) blockedState) = Vector3 (-9.02) 0 0
   \<and> targetPosition (updateRobotMovement 2000 (\<lambda>n. 1/2) blockedState) = Vector3 (-9.02) 0 0"
proof -
  have free: "\<not> checkCollision obstacles (2003 / 100) 20 defaultRobotRadius"
    by (simp add: collision_eval)
  have blocked: "checkCollision obstacles (- (899 / 100)) 0 defaultRobotRadius"
    by (simp add: collision_eval)
  show ?thesis
    using committed_move_is_collision_free [of 2000 "\<lambda>n. 1/2" movingState]
      committed_move_is_collision_free [of 2000 "\<lambda>n. 1/2" blockedState]
    by (simp add: movingState_def blockedState_def initialState_def updateRobotMovement_def
        retargetStep_def moveStep_def nextPosition_def targetDistance_def findValid_all_half
        free blocked Let_def)
qed

lemma updateRobotMovement_becomes_moving:
  "\<not> isMoving s \<Longrightarrow> isMoving (updateRobotMovement now rnd s) \<Longrightarrow>
   now - lastDirectionChange s > 3000 + rnd 0 * 2000"
proof (rule ccontr)
  assume idle: "\<not> isMoving s" and mv: "isMoving (updateRobotMovement now rnd s)"
    and no: "\<not> now - lastDirectionChange s > 3000 + rnd 0 * 2000"
  have "updateRobotMovement now rnd s = s \<or> updateRobotMovement now rnd s = moveStep rnd 1 s"
    using no by (simp add: updateRobotMovement_def retargetStep_def)
  then show False using idle mv moveStep_isMoving by auto
qed

lemma updateRobotMovement_retargets:
  assumes "\<not> robotInteractionMode s" and "now - lastDirectionChange s > 3000 + rnd 0 * 2000"
  shows "lastDirectionChange (updateRobotMovement now rnd s) = now"
    and "isMoving (updateRobotMovement now rnd s) \<or> targetDistance (updateRobotMovement now rnd s) \<le> 1"
proof -
  let ?s1 = "fst (retargetStep now rnd s)"
  let ?k = "snd (retargetStep now rnd s)"
  have eq: "updateRobotMovement now rnd s = moveStep rnd ?k ?s1"
    using assms(1) by (rule updateRobotMovement_eq)
  have s1: "lastDirectionChange ?s1 = now" "isMoving ?s1"
    using assms(2) by (simp_all add: retargetStep_fires Let_def)
  show "lastDirectionChange (updateRobotMovement now rnd s) = now"
    by (simp add: eq moveStep_fields s1)
  show "isMoving (updateRobotMovement now rnd s) \<or> targetDistance (updateRobotMovement now rnd s) \<le> 1"
    unfolding eq using s1(2) by (rule moveStep_stays_or_arrives)
qed

lemma deactivateRobotHelpMode_clock:
  "robotInteractionMode s \<Longrightarrow>
     lastDirectionChange (deactivateRobotHelpMode t s) = 0
     \<and> \<not> isMoving (deactivateRobotHelpMode t s)
     \<and> \<not> robotInteractionMode (deactivateRobotHelpMode t s)
     \<and> timers (deactivateRobotHelpMode t s) = timers s @ [t + 100]"
  by (simp add: deactivateRobotHelpMode_def gsap_to_def Let_def split: option.splits)

text \<open>
  C10. When the robot is moving and the interval since \<open>lastDirectionChange\<close> is
  over, the tick draws a new target with \<open>findValidPosition\<close> and resets the clock,
  whether or not the old target was reached or blocked: the test of the interval does
  not look at \<open>isMoving\<close>.
\<close>

theorem retarget_while_moving:
  "isMoving s \<and> \<not> robotInteractionMode s \<and> now - lastDirectionChange s > 3000 + rnd 0 * 2000 \<longrightarrow>
     fst (retargetStep now rnd s) =
       s\<lparr>targetPosition :=
           Vector3 (fst (fst (findValidPosition (obstacles_of s) rnd 1 (vx (robot_position s))
                      (vz (robot_position s)) defaultMaxAttempts))) 0
                   (snd (fst (findValidPosition (obstacles_of s) rnd 1 (vx (robot_position s))
                      (vz (robot_position s)) defaultMaxAttempts))),
         lastDirectionChange := now, isMoving := True\<rparr>
     \<and> updateRobotMovement now rnd s =
         moveStep rnd (snd (retargetStep now rnd s)) (fst (retargetStep now rnd s))
     \<and> lastDirectionChange (updateRobotMovement now rnd s) = now"
proof (intro impI)
  assume a: "isMoving s \<and> \<not> robotInteractionMode s \<and> now - lastDirectionChange s > 3000 + rnd 0 * 2000"
  then have m: "\<not> robotInteractionMode s" and e: "now - lastDirectionChange s > 3000 + rnd 0 * 2000"
    by simp_all
  show "fst (retargetStep now rnd s) =
       s\<lparr>targetPosition :=
           Vector3 (fst (fst (findValidPosition (obstacles_of s) rnd 1 (vx (robot_position s))
                      (vz (robot_position s)) defaultMaxAttempts))) 0
                   (snd (fst (findValidPosition (obstacles_of s) rnd 1 (vx (robot_position s))
                      (vz (robot_position s)) defaultMaxAttempts))),
         lastDirectionChange := now, isMoving := True\<rparr>
     \<and> updateRobotMovement now rnd s =
         moveStep rnd (snd (retargetStep now rnd s)) (fst (retargetStep now rnd s))
     \<and> lastDirectionChange (updateRobotMovement now rnd s) = now"
    using updateRobotMovement_eq [OF m]
      updateRobotMovement_retargets(1) [where s=s and now=now and rnd=rnd, OF m e]
    by (simp add: retargetStep_fires [where s=s and now=now and rnd=rnd, OF e] Let_def)
qed

theorem retarget_while_moving_witness:
  "targetDistance movingState = 10
   \<and> \<not> checkCollision obstacles (fst (nextPosition movingState)) (snd (nextPosition movingState))
         defaultRobotRadius
   \<and> targetPosition (updateRobotMovement 7000 sampleDraws movingState) = Vector3 20 0 15
   \<and> lastDirectionChange (updateRobotMovement 7000 sampleDraws movingState) = 7000"
proof -
  have free2: "\<not> checkCollision obstacles 20 (1997 / 100) defaultRobotRadius"
    by (simp add: collision_eval)
  have free3: "\<not> checkCollision obstacles (2003 / 100) 20 defaultRobotRadius"
    by (simp add: collision_eval)
  have d0: "sampleDraws 0 = 3/4" by (simp add: sampleDraws_def)
  show ?thesis
    using retarget_while_moving [where s=movingState and now=7000 and rnd=sampleDraws]
    by (simp add: movingState_def initialState_def updateRobotMovement_def retargetStep_def
        moveStep_def nextPosition_def targetDistance_def sample_target d0 free2 free3 Let_def)
qed

section \<open>The auto-exit of the help mode\<close>

lemma updateRobotMovement_in_help_mode:
  "robotInteractionMode s \<Longrightarrow> updateRobotMovement now rnd s = s"
  by (simp add: updateRobotMovement_def)

lemma deactivateRobotHelpMode_mode: "\<not> robotInteractionMode (deactivateRobotHelpMode now s)"
  by (simp add: deactivateRobotHelpMode_def gsap_to_def Let_def split: option.splits)

lemma deactivateRobotHelpMode_isHologramActive:
  "isHologramActive (deactivateRobotHelpMode now s) = isHologramActive s"
  "activeHologramIndex (deactivateRobotHelpMode now s) = activeHologramIndex s"
  by (simp_all add: deactivateRobotHelpMode_def gsap_to_def Let_def split: option.splits)

lemma animate_mode:
  "robotInteractionMode s \<Longrightarrow>
   robotInteractionMode (animate now rnd s) = (\<not> shouldAutoCloseRobotHelp now s)"
  by (simp add: animate_def updateRobotMovement_in_help_mode Let_def deactivateHologram_def
      deactivateRobotHelpMode_mode)

text \<open>
  C5. While the help mode is active, \<open>shouldAutoCloseRobotHelp\<close> is false
  during the 3000 ms after the activation time, and from then on it is true exactly when
  the camera is further than 25 units from the robot or the orbit target is further
  than 20 units from it. \<open>animate\<close> evaluates it in every frame in which the mode
  is active and leaves the mode exactly when it is true. The activation time is the
  clock value at which \<open>activateRobotHelpMode\<close> ran.
\<close>

theorem auto_exit_policy:
  "(robotInteractionMode s \<and> robotHelpModeStartTime s = Some t0 \<longrightarrow>
      shouldAutoCloseRobotHelp now s =
        (\<not> now - t0 < 3000
         \<and> (distanceTo (camera_position s) (robot_position s) > 25
            \<or> distanceTo (controls_target s) (robot_position s) > 20)))
   \<and> (robotInteractionMode s \<and> robotHelpModeStartTime s = Some t0 \<and> now - t0 < 3000 \<longrightarrow>
      robotInteractionMode (animate now rnd s))
   \<and> (robotInteractionMode s \<and> robotHelpModeStartTime s = Some t0 \<and> now - t0 \<ge> 3000 \<longrightarrow>
      robotInteractionMode (animate now rnd s) =
        (\<not> (distanceTo (camera_position s) (robot_position s) > 25
            \<or> distanceTo (controls_target s) (robot_position s) > 20)))
   \<and> (\<not> robotInteractionMode s \<longrightarrow>
      robotInteractionMode (activateRobotHelpMode t0 s)
      \<and> robotHelpModeStartTime (activateRobotHelpMode t0 s) = Some t0)"
proof -
  have pol: "shouldAutoCloseRobotHelp now s =
        (\<not> now - t0 < 3000
         \<and> (distanceTo (camera_position s) (robot_position s) > 25
            \<or> distanceTo (controls_target s) (robot_position s) > 20))"
    if "robotInteractionMode s" "robotHelpModeStartTime s = Some t0"
    using that by (simp add: shouldAutoCloseRobotHelp_def Let_def)
  have act: "robotInteractionMode (activateRobotHelpMode t0 s)
      \<and> robotHelpModeStartTime (activateRobotHelpMode t0 s) = Some t0"
    if "\<not> robotInteractionMode s"
    using that by (simp add: activateRobotHelpMode_def gsap_to_def Let_def)
  show ?thesis
    using pol act by (auto simp: animate_mode)
qed

theorem auto_exit_policy_witness:
  "robotInteractionMode (animate 2000 sampleDraws (helpState\<lparr>camera_position := Vector3 20 0 50\<rparr>))
   \<and> \<not> robotInteractionMode (animate 4000 sampleDraws (helpState\<lparr>camera_position := Vector3 20 0 50\<rparr>))
   \<and> robotInteractionMode (animate 4000 sampleDraws
        (helpState\<lparr>camera_position := Vector3 20 0 30, controls_target := Vector3 20 0 20\<rparr>))
   \<and> \<not> robotInteractionMode (animate 4000 sampleDraws
        (helpState\<lparr>camera_position := Vector3 20 0 30, controls_target := Vector3 20 0 50\<rparr>))"
  using auto_exit_policy [where s="helpState\<lparr>camera_position := Vector3 20 0 50\<rparr>"
      and ?t0.0=1000 and now=2000 and rnd=sampleDraws]
    auto_exit_policy [where s="helpState\<lparr>camera_position := Vector3 20 0 50\<rparr>"
      and ?t0.0=1000 and now=4000 and rnd=sampleDraws]
    auto_exit_policy [where s="helpState\<lparr>camera_position := Vector3 20 0 30,
        controls_target := Vector3 20 0 20\<rparr>" and ?t0.0=1000 and now=4000 and rnd=sampleDraws]
    auto_exit_policy [where s="helpState\<lparr>camera_position := Vector3 20 0 30,
        controls_target := Vector3 20 0 50\<rparr>" and ?t0.0=1000 and now=4000 and rnd=sampleDraws]
  by (simp add: helpState_def initialState_def activateRobotHelpMode_def gsap_to_def
      distanceTo_def Let_def)

section \<open>The saved camera pose\<close>

lemma destinationOf_alt:
  "destinationOf obj s =
     (if filter (\<lambda>tw. tw_target tw = obj) (tweens s) = [] then None
      else Some (tw_to (last (filter (\<lambda>tw. tw_target tw = obj) (tweens s)))))"
  by (simp add: destinationOf_def split: list.splits)

lemma destinationOf_gsap_to:
  "destinationOf obj (gsap_to tw s) =
     (if tw_target tw = obj then Some (tw_to tw) else destinationOf obj s)"
proof (cases "tw_target tw = obj")
  case True
  then show ?thesis
    by (simp add: destinationOf_alt gsap_to_def)
next
  case False
  have "filter (\<lambda>t. tw_target t = obj) (filter (\<lambda>t. tw_target t \<noteq> tw_target tw) (tweens s))
        = filter (\<lambda>t. tw_target t = obj) (tweens s)"
    using False by (auto intro: filter_cong)
  with False show ?thesis
    by (simp add: destinationOf_alt gsap_to_def)
qed

lemma destinationOf_update [simp]:
  "destinationOf obj (s\<lparr>lastDirectionChange := a\<rparr>) = destinationOf obj s"
  "destinationOf obj (s\<lparr>isMoving := b\<rparr>) = destinationOf obj s"
  "destinationOf obj (s\<lparr>timers := c\<rparr>) = destinationOf obj s"
  by (simp_all add: destinationOf_def)

lemma gsap_to_fields:
  "originalCameraPosition (gsap_to tw s) = originalCameraPosition s"
  "originalCameraTarget (gsap_to tw s) = originalCameraTarget s"
  "robotInteractionMode (gsap_to tw s) = robotInteractionMode s"
  "phoneInteractionMode (gsap_to tw s) = phoneInteractionMode s"
  "isHologramActive (gsap_to tw s) = isHologramActive s"
  "activeHologramIndex (gsap_to tw s) = activeHologramIndex s"
  "camera_position (gsap_to tw s) = camera_position s"
  "controls_target (gsap_to tw s) = controls_target s"
  "timers (gsap_to tw s) = timers s"
  "overwriteDefault (gsap_to tw s) = overwriteDefault s"
  by (simp_all add: gsap_to_def)

lemma enterPhoneMode_saves:
  "originalCameraPosition (enterPhoneMode now s) = Some (camera_position s)"
  "originalCameraTarget (enterPhoneMode now s) = Some (controls_target s)"
  "phoneInteractionMode (enterPhoneMode now s)"
  by (simp_all add: enterPhoneMode_def Let_def gsap_to_fields)

lemma activateRobotHelpMode_saves:
  assumes "\<not> robotInteractionMode s"
  shows "originalCameraPosition (activateRobotHelpMode now s) = Some (camera_position s)"
    and "originalCameraTarget (activateRobotHelpMode now s) = Some (controls_target s)"
    and "robotInteractionMode (activateRobotHelpMode now s)"
  using assms by (simp_all add: activateRobotHelpMode_def Let_def gsap_to_fields)

lemma exitPhoneMode_restores:
  assumes "originalCameraPosition s = Some p" and "originalCameraTarget s = Some q"
  shows "\<exists>s'. exitPhoneMode now s = Inr s'
           \<and> destinationOf CameraPosition s' = Some p \<and> destinationOf ControlsTarget s' = Some q
           \<and> originalCameraPosition s' = Some p \<and> originalCameraTarget s' = Some q
           \<and> \<not> phoneInteractionMode s'"
  using assms
  by (simp add: exitPhoneMode_def Let_def destinationOf_gsap_to gsap_to_fields)

lemma deactivateRobotHelpMode_restores:
  assumes "robotInteractionMode s"
    and "originalCameraPosition s = Some p" and "originalCameraTarget s = Some q"
  shows "destinationOf CameraPosition (deactivateRobotHelpMode now s) = Some p"
    and "destinationOf ControlsTarget (deactivateRobotHelpMode now s) = Some q"
  using assms
  by (simp_all add: deactivateRobotHelpMode_def Let_def destinationOf_gsap_to gsap_to_fields)

lemma deactivateRobotHelpMode_keeps:
  "originalCameraPosition (deactivateRobotHelpMode now s) = originalCameraPosition s"
  "originalCameraTarget (deactivateRobotHelpMode now s) = originalCameraTarget s"
  by (simp_all add: deactivateRobotHelpMode_def Let_def gsap_to_fields split: option.splits)

text \<open>
  C9. \<open>enterPhoneMode\<close> and \<open>activateRobotHelpMode\<close> write the current camera pose
  into the same two fields, whatever these held before. \<open>exitPhoneMode\<close> and
  \<open>deactivateRobotHelpMode\<close> start the camera and target tweens towards the pose that
  the fields hold at that moment, the most recently saved one, and leave the fields as
  they are.
\<close>

theorem shared_saved_pose:
  "originalCameraPosition (enterPhoneMode now s) = Some (camera_position s)
   \<and> originalCameraTarget (enterPhoneMode now s) = Some (controls_target s)
   \<and> (\<not> robotInteractionMode s \<longrightarrow>
        originalCameraPosition (activateRobotHelpMode now s) = Some (camera_position s)
        \<and> originalCameraTarget (activateRobotHelpMode now s) = Some (controls_target s))
   \<and> (originalCameraPosition s = Some p \<and> originalCameraTarget s = Some q \<longrightarrow>
        (\<exists>s'. exitPhoneMode now s = Inr s'
           \<and> destinationOf CameraPosition s' = Some p \<and> destinationOf ControlsTarget s' = Some q
           \<and> originalCameraPosition s' = Some p \<and> originalCameraTarget s' = Some q))
   \<and> (robotInteractionMode s \<and> originalCameraPosition s = Some p
        \<and> originalCameraTarget s = Some q \<longrightarrow>
        destinationOf CameraPosition (deactivateRobotHelpMode now s) = Some p
        \<and> destinationOf ControlsTarget (deactivateRobotHelpMode now s) = Some q)
   \<and> originalCameraPosition (deactivateRobotHelpMode now s) = originalCameraPosition s
   \<and> originalCameraTarget (deactivateRobotHelpMode now s) = originalCameraTarget s"
  using exitPhoneMode_restores [of s p q now]
  by (auto simp: enterPhoneMode_saves activateRobotHelpMode_saves
      deactivateRobotHelpMode_restores deactivateRobotHelpMode_keeps)

theorem shared_saved_pose_witness:
  "originalCameraPosition helpState = Some (Vector3 0 8 12)
   \<and> originalCameraPosition overwrittenState = Some (Vector3 1 2 3)
   \<and> robotInteractionMode overwrittenState \<and> phoneInteractionMode overwrittenState
   \<and> (case exitPhoneMode 3000 overwrittenState of
         Inl e \<Rightarrow> False
       | Inr s' \<Rightarrow>
           destinationOf CameraPosition s' = Some (Vector3 1 2 3)
           \<and> originalCameraPosition s' = Some (Vector3 1 2 3)
           \<and> destinationOf CameraPosition (deactivateRobotHelpMode 4000 s') = Some (Vector3 1 2 3)
           \<and> originalCameraPosition (deactivateRobotHelpMode 4000 s') = Some (Vector3 1 2 3))"
proof -
  let ?s2 = "helpState\<lparr>camera_position := Vector3 1 2 3, controls_target := Vector3 4 5 6\<rparr>"
  have h: "originalCameraPosition helpState = Some (Vector3 0 8 12)"
    "robotInteractionMode helpState"
    by (simp_all add: helpState_def initialState_def activateRobotHelpMode_def Let_def
        gsap_to_def)
  have o: "originalCameraPosition overwrittenState = Some (Vector3 1 2 3)"
    "originalCameraTarget overwrittenState = Some (Vector3 4 5 6)"
    "phoneInteractionMode overwrittenState"
    "robotInteractionMode overwrittenState"
    using shared_saved_pose [where s="?s2" and now=2000] h(2)
    by (simp_all add: overwrittenState_def enterPhoneMode_def gsap_to_def Let_def)
  obtain s' where e: "exitPhoneMode 3000 overwrittenState = Inr s'"
    and d: "destinationOf CameraPosition s' = Some (Vector3 1 2 3)"
      "destinationOf ControlsTarget s' = Some (Vector3 4 5 6)"
      "originalCameraPosition s' = Some (Vector3 1 2 3)"
      "originalCameraTarget s' = Some (Vector3 4 5 6)"
    using shared_saved_pose [where s=overwrittenState and now=3000
        and p="Vector3 1 2 3" and q="Vector3 4 5 6"] o
    by auto
  have r: "robotInteractionMode s'"
    using e o(4) by (auto simp: exitPhoneMode_def Let_def gsap_to_def split: option.splits)
  have "destinationOf CameraPosition (deactivateRobotHelpMode 4000 s') = Some (Vector3 1 2 3)"
    "originalCameraPosition (deactivateRobotHelpMode 4000 s') = Some (Vector3 1 2 3)"
    using shared_saved_pose [where s=s' and now=4000
        and p="Vector3 1 2 3" and q="Vector3 4 5 6"] d r
    by auto
  with h o e d show ?thesis by simp
qed

section \<open>Exits and the camera\<close>







section \<open>The tracking flag of the hologram panels\<close>

lemma exitPhoneMode_hologram:
  "exitPhoneMode now s = Inr s' \<Longrightarrow>
   isHologramActive s' = isHologramActive s \<and> activeHologramIndex s' = activeHologramIndex s
   \<and> robotInteractionMode s' = robotInteractionMode s"
  by (auto simp: exitPhoneMode_def Let_def gsap_to_def split: option.splits)

lemma autoClosePhoneHologram_hologram:
  "autoClosePhoneHologram now s = Inr s' \<Longrightarrow>
   isHologramActive s' = isHologramActive s \<and> activeHologramIndex s' = activeHologramIndex s
   \<and> robotInteractionMode s' = robotInteractionMode s"
  using exitPhoneMode_hologram [of now s s']
  by (auto simp: autoClosePhoneHologram_def split: if_splits)

lemma activateRobotHelpMode_hologram:
  "isHologramActive (activateRobotHelpMode now s) = isHologramActive s"
  "activeHologramIndex (activateRobotHelpMode now s) = activeHologramIndex s"
  by (simp_all add: activateRobotHelpMode_def Let_def gsap_to_def)

lemma enterPhoneMode_hologram:
  "isHologramActive (enterPhoneMode now s) = isHologramActive s"
  "activeHologramIndex (enterPhoneMode now s) = activeHologramIndex s"
  by (simp_all add: enterPhoneMode_def Let_def gsap_to_def)

lemma handlePhoneClick_hologram:
  "handlePhoneClick now s = Inr s' \<Longrightarrow> isHologramActive s' = isHologramActive s"
  using exitPhoneMode_hologram [of now s s']
  by (auto simp: handlePhoneClick_def enterPhoneMode_hologram split: if_splits)

lemma focusOnHologramScreen_flag:
  assumes "focusOnHologramScreen i now s = Inr s'"
  shows "isHologramActive s' \<longrightarrow> isHologramActive s"
    and "0 \<le> i \<and> i < 4 \<longrightarrow> \<not> isHologramActive s' \<and> activeHologramIndex s' = i"
proof -
  obtain s1 where a: "autoClosePhoneHologram now s = Inr s1"
    using assms by (auto simp: focusOnHologramScreen_def andThen_def split: sum.splits)
  have h: "isHologramActive s1 = isHologramActive s"
    using autoClosePhoneHologram_hologram [OF a] by simp
  show "isHologramActive s' \<longrightarrow> isHologramActive s"
    using assms a h
    by (auto simp: focusOnHologramScreen_def andThen_def Let_def gsap_to_fields
        deactivateRobotHelpMode_isHologramActive split: if_splits)
  show "0 \<le> i \<and> i < 4 \<longrightarrow> \<not> isHologramActive s' \<and> activeHologramIndex s' = i"
    using assms a
    by (auto simp: focusOnHologramScreen_def andThen_def Let_def gsap_to_fields
        screenPositions_def split: if_splits)
qed

lemma returnToDefaultView_flag:
  "returnToDefaultView now s = Inr s' \<Longrightarrow> \<not> isHologramActive s'"
  by (auto simp: returnToDefaultView_def andThen_def Let_def gsap_to_fields
      deactivateHologram_def split: sum.splits)

lemma navigateToSection_flag:
  assumes "navigateToSection sec now s = Inr s'"
  shows "isHologramActive s' \<longrightarrow> isHologramActive s"
proof (cases "currentSection s = sec \<or> \<not> isLoaded s")
  case True
  then show ?thesis using assms by (simp add: navigateToSection_def)
next
  case False
  let ?s1 = "s\<lparr>currentSection := sec\<rparr>"
  have f: "isHologramActive ?s1 = isHologramActive s" by simp
  show ?thesis
    using assms False f returnToDefaultView_flag [of now ?s1 s']
      focusOnHologramScreen_flag(1) [of _ now ?s1 s']
    by (cases sec) (auto simp: navigateToSection_def Let_def)
qed

lemma robotButtonsClick_flag:
  "robotButtonsClick c now s = Some s' \<Longrightarrow> isHologramActive s' = isHologramActive s"
  by (auto simp: robotButtonsClick_def deactivateRobotHelpMode_isHologramActive
      split: option.splits buttonType.splits if_splits)

lemma phoneHologramClick_flag:
  "phoneHologramClick c now s = Some (Inr s') \<Longrightarrow> isHologramActive s' = isHologramActive s"
  using exitPhoneMode_hologram [of now s s']
  by (auto simp: phoneHologramClick_def split: option.splits holoHit.splits)

lemma onHologramClick_flag:
  assumes "onHologramClick c now s = Inr s'"
  shows "isHologramActive s' \<longrightarrow> isHologramActive s"
proof -
  have robot: "isHologramActive s' = isHologramActive s"
    if "andThen (autoClosePhoneHologram now s) (\<lambda>s1. Inr (activateRobotHelpMode now s1)) = Inr s'"
    using that autoClosePhoneHologram_hologram [of now s]
    by (auto simp: andThen_def activateRobotHelpMode_hologram split: sum.splits)
  show ?thesis
    using assms robot robotButtonsClick_flag [of c now s s'] handlePhoneClick_hologram [of now s s']
      phoneHologramClick_flag [of c now s s'] returnToDefaultView_flag [of now s s']
      focusOnHologramScreen_flag(1) [of _ now s s']
    by (auto simp: onHologramClick_def split: if_splits option.splits)
qed

lemma moveStep_hologram:
  "isHologramActive (moveStep rnd k s) = isHologramActive s"
  "activeHologramIndex (moveStep rnd k s) = activeHologramIndex s"
  "tweens (moveStep rnd k s) = tweens s"
  by (simp_all add: moveStep_def Let_def split: prod.splits)

lemma retargetStep_hologram:
  "isHologramActive (fst (retargetStep now rnd s)) = isHologramActive s"
  "activeHologramIndex (fst (retargetStep now rnd s)) = activeHologramIndex s"
  "tweens (fst (retargetStep now rnd s)) = tweens s"
  by (simp_all add: retargetStep_def split: prod.splits)

lemma updateRobotMovement_hologram:
  "isHologramActive (updateRobotMovement now rnd s) = isHologramActive s"
  "activeHologramIndex (updateRobotMovement now rnd s) = activeHologramIndex s"
  "tweens (updateRobotMovement now rnd s) = tweens s"
  by (cases "robotInteractionMode s";
      simp add: updateRobotMovement_eq moveStep_hologram retargetStep_hologram
        updateRobotMovement_in_help_mode)+

lemma animate_flag: "isHologramActive (animate now rnd s) \<longrightarrow> isHologramActive s"
  by (simp add: animate_def Let_def updateRobotMovement_hologram deactivateHologram_def
      deactivateRobotHelpMode_isHologramActive)

lemma forceDirectionChange_hologram:
  "isHologramActive (forceDirectionChange now s) = isHologramActive s"
  "tweens (forceDirectionChange now s) = tweens s"
  by (simp_all add: forceDirectionChange_def)

lemma fireTimers_hologram:
  "isHologramActive (fireTimers now ds s) = isHologramActive s"
  "tweens (fireTimers now ds s) = tweens s"
  by (induction ds arbitrary: s) (simp_all add: forceDirectionChange_hologram)

lemma runTimeouts_hologram:
  "isHologramActive (runTimeouts now s) = isHologramActive s"
  "tweens (runTimeouts now s) = tweens s"
  by (simp_all add: runTimeouts_def fireTimers_hologram)

lemma completeTween_flag:
  "isHologramActive (completeTween tw s) \<Longrightarrow> \<not> isHologramActive s \<Longrightarrow>
   \<exists>j. tw_onComplete tw = ActivateTracking j"
  by (cases "tw_onComplete tw"; cases "tw_target tw"; simp add: completeTween_def)

lemma completeTween_tweens: "tweens (completeTween tw s) = tweens s"
  by (cases "tw_onComplete tw"; cases "tw_target tw"; simp add: completeTween_def)

lemma runTweens_tweens: "tweens (runTweens now tws s) = tweens s"
  by (induction tws arbitrary: s) (simp_all add: completeTween_tweens)

lemma runTweens_flag:
  "isHologramActive (runTweens now tws s) \<Longrightarrow> \<not> isHologramActive s \<Longrightarrow>
   \<exists>tw \<in> set tws. (\<exists>j. tw_onComplete tw = ActivateTracking j) \<and> tw_end tw \<le> now"
proof (induction tws arbitrary: s)
  case Nil
  then show ?case by simp
next
  case (Cons tw tws)
  show ?case
  proof (cases "tw_end tw \<le> now")
    case False
    then show ?thesis using Cons by auto
  next
    case True
    show ?thesis
    proof (cases "isHologramActive (completeTween tw s)")
      case True
      with \<open>tw_end tw \<le> now\<close> completeTween_flag [OF True Cons.prems(2)]
      show ?thesis by auto
    next
      case False
      have "isHologramActive (runTweens now tws (completeTween tw s))"
        using Cons.prems(1) True by simp
      from Cons.IH [OF this False] show ?thesis by auto
    qed
  qed
qed

lemma gsapTick_flag:
  "isHologramActive (gsapTick now s) \<Longrightarrow> \<not> isHologramActive s \<Longrightarrow>
   \<exists>tw \<in> set (tweens s). (\<exists>j. tw_onComplete tw = ActivateTracking j) \<and> tw_end tw \<le> now"
  unfolding gsapTick_def
  by (rule runTweens_flag [where s="s\<lparr>tweens := filter (\<lambda>tw. \<not> tw_end tw \<le> now) (tweens s)\<rparr>"])
     simp_all

lemma gsapTick_tweens: "set (tweens (gsapTick now s)) \<subseteq> set (tweens s)"
  by (auto simp: gsapTick_def runTweens_tweens)

lemma gsap_to_set: "tw' \<in> set (tweens (gsap_to tw s)) \<Longrightarrow> tw' = tw \<or> tw' \<in> set (tweens s)"
  by (auto simp: gsap_to_def split: if_splits)

lemma exitPhoneMode_tracking:
  "exitPhoneMode now s = Inr s' \<Longrightarrow> tw \<in> set (tweens s') \<Longrightarrow>
   tw_onComplete tw = ActivateTracking j \<Longrightarrow> tw \<in> set (tweens s)"
  by (auto simp: exitPhoneMode_def Let_def split: option.splits dest!: gsap_to_set)

lemma autoClosePhoneHologram_tracking:
  "autoClosePhoneHologram now s = Inr s' \<Longrightarrow> tw \<in> set (tweens s') \<Longrightarrow>
   tw_onComplete tw = ActivateTracking j \<Longrightarrow> tw \<in> set (tweens s)"
  using exitPhoneMode_tracking [of now s s' tw j]
  by (auto simp: autoClosePhoneHologram_def split: if_splits)

lemma enterPhoneMode_tracking:
  "tw \<in> set (tweens (enterPhoneMode now s)) \<Longrightarrow>
   tw_onComplete tw = ActivateTracking j \<Longrightarrow> tw \<in> set (tweens s)"
  by (auto simp: enterPhoneMode_def Let_def dest!: gsap_to_set)

lemma activateRobotHelpMode_tracking:
  "tw \<in> set (tweens (activateRobotHelpMode now s)) \<Longrightarrow>
   tw_onComplete tw = ActivateTracking j \<Longrightarrow> tw \<in> set (tweens s)"
  by (auto simp: activateRobotHelpMode_def Let_def split: if_splits dest!: gsap_to_set)

lemma deactivateRobotHelpMode_tracking:
  "tw \<in> set (tweens (deactivateRobotHelpMode now s)) \<Longrightarrow>
   tw_onComplete tw = ActivateTracking j \<Longrightarrow> tw \<in> set (tweens s)"
  by (auto simp: deactivateRobotHelpMode_def Let_def split: if_splits option.splits
      dest!: gsap_to_set)

lemma handlePhoneClick_tracking:
  "handlePhoneClick now s = Inr s' \<Longrightarrow> tw \<in> set (tweens s') \<Longrightarrow>
   tw_onComplete tw = ActivateTracking j \<Longrightarrow> tw \<in> set (tweens s)"
  using exitPhoneMode_tracking [of now s s' tw j] enterPhoneMode_tracking [of tw now s j]
  by (auto simp: handlePhoneClick_def split: if_splits)

lemma returnToDefaultView_tracking:
  assumes "returnToDefaultView now s = Inr s'" and "tw \<in> set (tweens s')"
    and "tw_onComplete tw = ActivateTracking j"
  shows "tw \<in> set (tweens s)"
proof -
  obtain s1 where a: "autoClosePhoneHologram now s = Inr s1"
    using assms(1) by (auto simp: returnToDefaultView_def andThen_def split: sum.splits)
  let ?s2 = "if robotInteractionMode s1 then deactivateRobotHelpMode now s1 else s1"
  have "tw \<in> set (tweens ?s2)"
    using assms a
    by (auto simp: returnToDefaultView_def andThen_def Let_def deactivateHologram_def
        dest!: gsap_to_set split: if_splits)
  then have "tw \<in> set (tweens s1)"
    using deactivateRobotHelpMode_tracking [of tw now s1 j] assms(3) by (auto split: if_splits)
  then show ?thesis
    using autoClosePhoneHologram_tracking [OF a _ assms(3)] by simp
qed

lemma focusOnHologramScreen_tracking:
  assumes "focusOnHologramScreen i now s = Inr s'" and "tw \<in> set (tweens s')"
    and "tw_onComplete tw = ActivateTracking j"
  shows "tw \<in> set (tweens s)
         \<or> (tw_end tw = now + 2000 \<and> activeHologramIndex s' = j \<and> \<not> isHologramActive s')"
proof -
  obtain s1 where a: "autoClosePhoneHologram now s = Inr s1"
    using assms(1) by (auto simp: focusOnHologramScreen_def andThen_def split: sum.splits)
  let ?s2 = "if robotInteractionMode s1 then deactivateRobotHelpMode now s1 else s1"
  have old: "tw \<in> set (tweens s)" if "tw \<in> set (tweens ?s2)"
  proof -
    have "tw \<in> set (tweens s1)"
      using that deactivateRobotHelpMode_tracking [of tw now s1 j] assms(3)
      by (auto split: if_splits)
    then show ?thesis using autoClosePhoneHologram_tracking [OF a _ assms(3)] by simp
  qed
  have "tw \<in> set (tweens ?s2)
        \<or> (tw_end tw = now + 2000 \<and> activeHologramIndex s' = j \<and> \<not> isHologramActive s')"
    using assms a
    by (auto simp: focusOnHologramScreen_def andThen_def Let_def gsap_to_fields
        dest!: gsap_to_set split: if_splits)
  with old show ?thesis by blast
qed

lemma navigateToSection_tracking:
  assumes "navigateToSection sec now s = Inr s'" and "tw \<in> set (tweens s')"
    and "tw_onComplete tw = ActivateTracking j"
  shows "tw \<in> set (tweens s)
         \<or> (tw_end tw = now + 2000 \<and> activeHologramIndex s' = j \<and> \<not> isHologramActive s')"
proof (cases "currentSection s = sec \<or> \<not> isLoaded s")
  case True
  then show ?thesis using assms by (simp add: navigateToSection_def)
next
  case False
  let ?s1 = "s\<lparr>currentSection := sec\<rparr>"
  have t: "tweens ?s1 = tweens s" by simp
  show ?thesis
    using assms(1) False t returnToDefaultView_tracking [of now ?s1 s', OF _ assms(2,3)]
      focusOnHologramScreen_tracking [of _ now ?s1 s', OF _ assms(2,3)] assms(2)
    by (cases sec) (auto simp: navigateToSection_def Let_def)
qed

lemma robotButtonsClick_tracking:
  "robotButtonsClick c now s = Some s' \<Longrightarrow> tw \<in> set (tweens s') \<Longrightarrow>
   tw_onComplete tw = ActivateTracking j \<Longrightarrow> tw \<in> set (tweens s)"
  using deactivateRobotHelpMode_tracking [of tw now s j]
  by (auto simp: robotButtonsClick_def split: option.splits buttonType.splits if_splits)

lemma phoneHologramClick_tracking:
  "phoneHologramClick c now s = Some (Inr s') \<Longrightarrow> tw \<in> set (tweens s') \<Longrightarrow>
   tw_onComplete tw = ActivateTracking j \<Longrightarrow> tw \<in> set (tweens s)"
  using exitPhoneMode_tracking [of now s s' tw j]
  by (auto simp: phoneHologramClick_def split: option.splits holoHit.splits)

lemma onHologramClick_tracking:
  assumes "onHologramClick c now s = Inr s'" and "tw \<in> set (tweens s')"
    and "tw_onComplete tw = ActivateTracking j"
  shows "tw \<in> set (tweens s)
         \<or> (tw_end tw = now + 2000 \<and> activeHologramIndex s' = j \<and> \<not> isHologramActive s')"
proof -
  have robot: "tw \<in> set (tweens s)"
    if h: "andThen (autoClosePhoneHologram now s) (\<lambda>s1. Inr (activateRobotHelpMode now s1)) = Inr s'"
  proof -
    obtain s1 where a: "autoClosePhoneHologram now s = Inr s1"
      and b: "s' = activateRobotHelpMode now s1"
      using h by (auto simp: andThen_def split: sum.splits)
    have "tw \<in> set (tweens s1)"
      using activateRobotHelpMode_tracking [of tw now s1 j] assms(2,3) b by simp
    then show ?thesis using autoClosePhoneHologram_tracking [OF a _ assms(3)] by simp
  qed
  show ?thesis
    using assms(1) robot robotButtonsClick_tracking [of c now s s', OF _ assms(2,3)]
      handlePhoneClick_tracking [of now s s', OF _ assms(2,3)]
      phoneHologramClick_tracking [of c now s s', OF _ assms(2,3)]
      returnToDefaultView_tracking [of now s s', OF _ assms(2,3)]
      focusOnHologramScreen_tracking [of _ now s s', OF _ assms(2,3)] assms(2)
    by (auto simp: onHologramClick_def split: if_splits option.splits)
qed

lemma animate_tracking:
  "tw \<in> set (tweens (animate now rnd s)) \<Longrightarrow> tw_onComplete tw = ActivateTracking j \<Longrightarrow>
   tw \<in> set (tweens s)"
  using deactivateRobotHelpMode_tracking [of tw now "updateRobotMovement now rnd s" j]
  by (auto simp: animate_def Let_def deactivateHologram_def updateRobotMovement_hologram
      split: if_splits)

lemma focusOnHologramScreen_queues:
  assumes "0 \<le> i" and "i < 4" and "focusOnHologramScreen i now s = Inr s'"
  shows "\<exists>tw \<in> set (tweens s'). tw_onComplete tw = ActivateTracking i
           \<and> tw_end tw = now + 2000 \<and> tw_target tw = ControlsTarget"
  using assms
  by (auto simp: focusOnHologramScreen_def andThen_def Let_def gsap_to_def screenPositions_def
      split: sum.splits if_splits)

lemma step_flag:
  assumes "step ev s = Inr s'" and "\<not> isHologramActive s" and "isHologramActive s'"
  shows "\<exists>t rnd. ev = Frame t rnd
           \<and> (\<exists>tw \<in> set (tweens s). (\<exists>j. tw_onComplete tw = ActivateTracking j) \<and> tw_end tw \<le> t)"
proof (cases ev)
  case (Click c t)
  then show ?thesis using assms onHologramClick_flag [of c t s s'] by simp
next
  case (Navigate sec t)
  then show ?thesis using assms navigateToSection_flag [of sec t s s'] by simp
next
  case EscapeKey
  then show ?thesis using assms by (auto simp: deactivateHologram_def split: if_splits)
next
  case (Frame t rnd)
  have "isHologramActive (gsapTick t s)"
    using assms Frame animate_flag [of t rnd "gsapTick t s"] by auto
  from gsapTick_flag [OF this assms(2)] Frame show ?thesis by blast
next
  case (Timeout t)
  then show ?thesis using assms by (auto simp: runTimeouts_hologram)
next
  case (CameraMoved p q)
  then show ?thesis using assms by auto
qed

lemma step_tracking:
  assumes "step ev s = Inr s'" and "tw \<in> set (tweens s')" and "tw \<notin> set (tweens s)"
    and "tw_onComplete tw = ActivateTracking j"
  shows "\<exists>t. ((\<exists>c. ev = Click c t) \<or> (\<exists>sec. ev = Navigate sec t))
           \<and> tw_end tw = t + 2000 \<and> activeHologramIndex s' = j \<and> \<not> isHologramActive s'"
proof (cases ev)
  case (Click c t)
  then show ?thesis
    using assms onHologramClick_tracking [of c t s s' tw j] by auto
next
  case (Navigate sec t)
  then show ?thesis
    using assms navigateToSection_tracking [of sec t s s' tw j] by auto
next
  case EscapeKey
  then show ?thesis using assms by (auto simp: deactivateHologram_def split: if_splits)
next
  case (Frame t rnd)
  have "tw \<in> set (tweens (gsapTick t s))"
    using assms Frame animate_tracking [of tw t rnd "gsapTick t s" j] by auto
  then show ?thesis using gsapTick_tweens [of t s] assms(3) by auto
next
  case (Timeout t)
  then show ?thesis using assms by (auto simp: runTimeouts_hologram)
next
  case (CameraMoved p q)
  then show ?thesis using assms by auto
qed

text \<open>
  What holds of the tracking flag for every event and either overwrite policy:
  \<open>focusOnHologramScreen\<close> leaves \<open>isHologramActive\<close> false and queues the
  \<open>controls.target\<close> tween that ends 2000 ms later and carries the callback that sets
  the flag; the flag goes from false to true only in an animation frame in which some
  tween with such a callback has reached its end; and such a tween enters the queue only
  through a click or a navigation call. The tween whose callback fires need not be the
  one of the latest focus request: see the run below.
\<close>

lemma tracking_set_by_entry_callback:
  "(0 \<le> i \<and> i < 4 \<and> focusOnHologramScreen i now s = Inr s' \<longrightarrow>
      \<not> isHologramActive s' \<and> activeHologramIndex s' = i
      \<and> (\<exists>tw \<in> set (tweens s'). tw_onComplete tw = ActivateTracking i
            \<and> tw_end tw = now + 2000 \<and> tw_target tw = ControlsTarget))
   \<and> (step ev s = Inr s' \<and> \<not> isHologramActive s \<and> isHologramActive s' \<longrightarrow>
      (\<exists>t rnd. ev = Frame t rnd
         \<and> (\<exists>tw \<in> set (tweens s). (\<exists>j. tw_onComplete tw = ActivateTracking j) \<and> tw_end tw \<le> t)))
   \<and> (step ev s = Inr s' \<and> tw \<in> set (tweens s') \<and> tw \<notin> set (tweens s)
        \<and> tw_onComplete tw = ActivateTracking j \<longrightarrow>
      (\<exists>t. ((\<exists>c. ev = Click c t) \<or> (\<exists>sec. ev = Navigate sec t))
         \<and> tw_end tw = t + 2000 \<and> activeHologramIndex s' = j \<and> \<not> isHologramActive s'))"
proof (intro conjI impI)
  assume a: "0 \<le> i \<and> i < 4 \<and> focusOnHologramScreen i now s = Inr s'"
  then have f: "focusOnHologramScreen i now s = Inr s'" and r: "0 \<le> i" "i < 4" by simp_all
  show "\<not> isHologramActive s'" "activeHologramIndex s' = i"
    using focusOnHologramScreen_flag(2) [OF f] r by simp_all
  show "\<exists>tw \<in> set (tweens s'). tw_onComplete tw = ActivateTracking i
            \<and> tw_end tw = now + 2000 \<and> tw_target tw = ControlsTarget"
    using r f by (rule focusOnHologramScreen_queues)
next
  assume "step ev s = Inr s' \<and> \<not> isHologramActive s \<and> isHologramActive s'"
  then show "\<exists>t rnd. ev = Frame t rnd
         \<and> (\<exists>tw \<in> set (tweens s). (\<exists>j. tw_onComplete tw = ActivateTracking j) \<and> tw_end tw \<le> t)"
    using step_flag by blast
next
  assume "step ev s = Inr s' \<and> tw \<in> set (tweens s') \<and> tw \<notin> set (tweens s)
        \<and> tw_onComplete tw = ActivateTracking j"
  then show "\<exists>t. ((\<exists>c. ev = Click c t) \<or> (\<exists>sec. ev = Navigate sec t))
         \<and> tw_end tw = t + 2000 \<and> activeHologramIndex s' = j \<and> \<not> isHologramActive s'"
    using step_tracking by blast
qed

lemmas focus_eval = focusOnHologramScreen_def autoClosePhoneHologram_def andThen_def
  gsap_to_def screenPositions_def screenSections_def getFrontCameraPosition_def Let_def

lemmas frame_eval = animate_def gsapTick_def completeTween_def updateRobotMovement_def
  retargetStep_def moveStep_def sampleDraws_def isCameraTargetOnHologram_def distanceTo_def
  deactivateHologram_def

text \<open>
  C4 (the failing input). Hologram 0 is clicked at time 1000 and again at time 2500.
  The second click starts a new entry animation that ends at 4500 and sets the flag to
  false. gsap's default keeps the first tween, so the frame at time 3000 runs the first
  tween's callback and sets \<open>isHologramActive\<close>, while the tween of the second
  request is still in the queue: the flag is true during the entry animation. The same
  happens when the second click is on hologram 1: gsap's tick at 3000 sets the flag with
  \<open>activeHologramIndex = 1\<close>, 1500 ms before the entry animation of hologram 1 ends.
\<close>

theorem stale_tracking_callback:
  "map_sum id
     (\<lambda>s. (isHologramActive s, activeHologramIndex s,
           map tw_end (filter (\<lambda>tw. tw_onComplete tw = ActivateTracking 0) (tweens s))))
     (run [Click (noHit\<lparr>screenHit := Some 0\<rparr>) 1000,
           Click (noHit\<lparr>screenHit := Some 0\<rparr>) 2500,
           Frame 3000 sampleDraws] (initialState 20 20 False))
   = Inr (True, 0, [4500])
   \<and> map_sum id
     (\<lambda>s. (isHologramActive s, isHologramActive (gsapTick 3000 s),
           activeHologramIndex (gsapTick 3000 s),
           map tw_end (filter (\<lambda>tw. tw_onComplete tw = ActivateTracking 1)
             (tweens (gsapTick 3000 s)))))
     (run [Click (noHit\<lparr>screenHit := Some 0\<rparr>) 1000,
           Click (noHit\<lparr>screenHit := Some 1\<rparr>) 2500] (initialState 20 20 False))
   = Inr (False, True, 1, [4500])"
  by (simp add: initialState_def noHit_def onHologramClick_def dragThreshold_def andThen_def
      focus_eval frame_eval)

section \<open>Mutual exclusion of the focus modes\<close>

text \<open>
  C1 (the failing input). After the scene is loaded, a click on the robot enters the
  help mode, and a click on the phone then enters the phone mode without leaving the
  help mode: \<open>enterPhoneMode\<close> closes no other mode. Two non-default modes are
  active after the second request.
\<close>

theorem phone_click_in_help_mode:
  "map_sum id (\<lambda>s. (robotInteractionMode s, phoneInteractionMode s, activeModeCount s))
     (run [Click (noHit\<lparr>robotHit := True\<rparr>) 1000, Click (noHit\<lparr>phoneHit := True\<rparr>) 2000]
        (initialState 20 20 ow))
   = Inr (True, True, 2)"
  by (simp add: initialState_def noHit_def onHologramClick_def dragThreshold_def
      robotButtonsClick_def autoClosePhoneHologram_def andThen_def activateRobotHelpMode_def
      handlePhoneClick_def enterPhoneMode_def gsap_to_def activeModeCount_def hologramFocus_def
      Let_def)

section \<open>The retarget clock\<close>

lemma gsap_to_robot:
  "isMoving (gsap_to tw s) = isMoving s"
  "lastDirectionChange (gsap_to tw s) = lastDirectionChange s"
  by (simp_all add: gsap_to_def)

lemma exitPhoneMode_isMoving:
  "exitPhoneMode now s = Inr s' \<Longrightarrow> isMoving s' = isMoving s"
  by (auto simp: exitPhoneMode_def Let_def gsap_to_def split: option.splits)

lemma autoClosePhoneHologram_isMoving:
  "autoClosePhoneHologram now s = Inr s' \<Longrightarrow> isMoving s' = isMoving s"
  using exitPhoneMode_isMoving [of now s s']
  by (auto simp: autoClosePhoneHologram_def split: if_splits)

lemma activateRobotHelpMode_isMoving:
  "isMoving (activateRobotHelpMode now s) \<longrightarrow> isMoving s"
  by (simp add: activateRobotHelpMode_def Let_def gsap_to_def)

lemma deactivateRobotHelpMode_isMoving:
  "isMoving (deactivateRobotHelpMode now s) \<longrightarrow> isMoving s"
  by (simp add: deactivateRobotHelpMode_def Let_def gsap_to_def split: option.splits)

lemma enterPhoneMode_isMoving: "isMoving (enterPhoneMode now s) = isMoving s"
  by (simp add: enterPhoneMode_def Let_def gsap_to_def)

lemma handlePhoneClick_isMoving:
  "handlePhoneClick now s = Inr s' \<Longrightarrow> isMoving s' = isMoving s"
  using exitPhoneMode_isMoving [of now s s']
  by (auto simp: handlePhoneClick_def enterPhoneMode_isMoving split: if_splits)

lemma focusOnHologramScreen_isMoving:
  assumes "focusOnHologramScreen i now s = Inr s'"
  shows "isMoving s' \<longrightarrow> isMoving s"
proof -
  obtain s1 where a: "autoClosePhoneHologram now s = Inr s1"
    using assms by (auto simp: focusOnHologramScreen_def andThen_def split: sum.splits)
  have h: "isMoving s1 = isMoving s"
    using autoClosePhoneHologram_isMoving [OF a] by simp
  show ?thesis
    using assms a h deactivateRobotHelpMode_isMoving [of now s1]
    by (auto simp: focusOnHologramScreen_def andThen_def Let_def gsap_to_robot
        split: if_splits)
qed

lemma returnToDefaultView_isMoving:
  assumes "returnToDefaultView now s = Inr s'"
  shows "isMoving s' \<longrightarrow> isMoving s"
proof -
  obtain s1 where a: "autoClosePhoneHologram now s = Inr s1"
    using assms by (auto simp: returnToDefaultView_def andThen_def split: sum.splits)
  have h: "isMoving s1 = isMoving s"
    using autoClosePhoneHologram_isMoving [OF a] by simp
  show ?thesis
    using assms a h deactivateRobotHelpMode_isMoving [of now s1]
    by (auto simp: returnToDefaultView_def andThen_def Let_def gsap_to_robot
        deactivateHologram_def split: if_splits)
qed

lemma navigateToSection_isMoving:
  assumes "navigateToSection sec now s = Inr s'"
  shows "isMoving s' \<longrightarrow> isMoving s"
proof (cases "currentSection s = sec \<or> \<not> isLoaded s")
  case True
  then show ?thesis using assms by (simp add: navigateToSection_def)
next
  case False
  let ?s1 = "s\<lparr>currentSection := sec\<rparr>"
  have f: "isMoving ?s1 = isMoving s" by simp
  show ?thesis
    using assms False f returnToDefaultView_isMoving [of now ?s1 s']
      focusOnHologramScreen_isMoving [of _ now ?s1 s']
    by (cases sec) (auto simp: navigateToSection_def Let_def)
qed

lemma robotButtonsClick_isMoving:
  "robotButtonsClick c now s = Some s' \<Longrightarrow> isMoving s' \<longrightarrow> isMoving s"
  using deactivateRobotHelpMode_isMoving [of now s]
  by (auto simp: robotButtonsClick_def split: option.splits buttonType.splits if_splits)

lemma phoneHologramClick_isMoving:
  "phoneHologramClick c now s = Some (Inr s') \<Longrightarrow> isMoving s' = isMoving s"
  using exitPhoneMode_isMoving [of now s s']
  by (auto simp: phoneHologramClick_def split: option.splits holoHit.splits)

lemma onHologramClick_isMoving:
  assumes "onHologramClick c now s = Inr s'"
  shows "isMoving s' \<longrightarrow> isMoving s"
proof -
  have robot: "isMoving s' \<longrightarrow> isMoving s"
    if h: "andThen (autoClosePhoneHologram now s) (\<lambda>s1. Inr (activateRobotHelpMode now s1)) = Inr s'"
  proof -
    obtain s1 where a: "autoClosePhoneHologram now s = Inr s1"
      and b: "s' = activateRobotHelpMode now s1"
      using h by (auto simp: andThen_def split: sum.splits)
    show ?thesis
      using autoClosePhoneHologram_isMoving [OF a] activateRobotHelpMode_isMoving [of now s1] b
      by simp
  qed
  show ?thesis
    using assms robot robotButtonsClick_isMoving [of c now s s']
      handlePhoneClick_isMoving [of now s s'] phoneHologramClick_isMoving [of c now s s']
      returnToDefaultView_isMoving [of now s s'] focusOnHologramScreen_isMoving [of _ now s s']
    by (auto simp: onHologramClick_def split: if_splits option.splits)
qed

lemma completeTween_robot:
  "isMoving (completeTween tw s) = isMoving s"
  "lastDirectionChange (completeTween tw s) = lastDirectionChange s"
  "robotInteractionMode (completeTween tw s) = robotInteractionMode s"
  by (cases "tw_onComplete tw"; cases "tw_target tw"; simp add: completeTween_def)+

lemma runTweens_robot:
  "isMoving (runTweens now tws s) = isMoving s"
  "lastDirectionChange (runTweens now tws s) = lastDirectionChange s"
  "robotInteractionMode (runTweens now tws s) = robotInteractionMode s"
  by (induction tws arbitrary: s) (simp_all add: completeTween_robot)

lemma gsapTick_robot:
  "isMoving (gsapTick now s) = isMoving s"
  "lastDirectionChange (gsapTick now s) = lastDirectionChange s"
  "robotInteractionMode (gsapTick now s) = robotInteractionMode s"
  by (simp_all add: gsapTick_def runTweens_robot)

lemma animate_isMoving:
  "isMoving (animate now rnd s) \<longrightarrow> isMoving (updateRobotMovement now rnd s)"
  using deactivateRobotHelpMode_isMoving [of now "updateRobotMovement now rnd s"]
  by (simp add: animate_def Let_def deactivateHologram_def)

lemma forceDirectionChange_robot:
  "isMoving (forceDirectionChange now s) = isMoving s"
  "robotInteractionMode (forceDirectionChange now s) = robotInteractionMode s"
  by (simp_all add: forceDirectionChange_def)

lemma fireTimers_robot:
  "isMoving (fireTimers now ds s) = isMoving s"
  "robotInteractionMode (fireTimers now ds s) = robotInteractionMode s"
  by (induction ds arbitrary: s) (simp_all add: forceDirectionChange_robot)

lemma fireTimers_clock:
  "\<not> robotInteractionMode s \<Longrightarrow> due \<in> set ds \<Longrightarrow> due \<le> now \<Longrightarrow>
   lastDirectionChange (forceDirectionChange now s) = now - 4000 \<Longrightarrow>
   lastDirectionChange (fireTimers now ds s) = now - 4000"
proof (induction ds arbitrary: s)
  case Nil
  then show ?case by simp
next
  case (Cons d ds)
  have keep: "lastDirectionChange (fireTimers now ds s') = now - 4000"
    if "lastDirectionChange s' = now - 4000" "\<not> robotInteractionMode s'" for s'
    using that
  proof (induction ds arbitrary: s')
    case Nil
    then show ?case by simp
  next
    case (Cons e es)
    then show ?case by (simp add: forceDirectionChange_def)
  qed
  show ?case
  proof (cases "d \<le> now")
    case True
    have "lastDirectionChange (forceDirectionChange now s) = now - 4000"
      "\<not> robotInteractionMode (forceDirectionChange now s)"
      using Cons.prems(1) by (simp_all add: forceDirectionChange_def)
    from keep [OF this] True show ?thesis by simp
  next
    case False
    then have "due \<in> set ds" using Cons.prems(2,3) by auto
    from Cons.IH [OF Cons.prems(1) this Cons.prems(3,4)] False show ?thesis by simp
  qed
qed

lemma runTimeouts_clock:
  assumes "\<not> robotInteractionMode s" and "due \<in> set (timers s)" and "due \<le> now"
  shows "lastDirectionChange (runTimeouts now s) = now - 4000"
  unfolding runTimeouts_def
  by (rule fireTimers_clock [where due=due]) (use assms in \<open>simp_all add: forceDirectionChange_def\<close>)

lemma runTimeouts_isMoving: "isMoving (runTimeouts now s) = isMoving s"
  by (simp add: runTimeouts_def fireTimers_robot)

lemma step_becomes_moving:
  assumes "step ev s = Inr s'" and "\<not> isMoving s" and "isMoving s'"
  shows "\<exists>t rnd. ev = Frame t rnd \<and> t - lastDirectionChange s > 3000 + rnd 0 * 2000"
proof (cases ev)
  case (Click c t)
  then show ?thesis using assms onHologramClick_isMoving [of c t s s'] by simp
next
  case (Navigate sec t)
  then show ?thesis using assms navigateToSection_isMoving [of sec t s s'] by simp
next
  case EscapeKey
  then show ?thesis using assms by (auto simp: deactivateHologram_def split: if_splits)
next
  case (Frame t rnd)
  have "isMoving (updateRobotMovement t rnd (gsapTick t s))"
    using assms Frame animate_isMoving [of t rnd "gsapTick t s"] by auto
  moreover have "\<not> isMoving (gsapTick t s)" using assms(2) by (simp add: gsapTick_robot)
  ultimately have "t - lastDirectionChange (gsapTick t s) > 3000 + rnd 0 * 2000"
    by (rule updateRobotMovement_becomes_moving [rotated])
  then show ?thesis using Frame by (simp add: gsapTick_robot)
next
  case (Timeout t)
  then show ?thesis using assms by (auto simp: runTimeouts_isMoving)
next
  case (CameraMoved p q)
  then show ?thesis using assms by auto
qed

lemma quietOrHelpExit_refl: "quietOrHelpExit s s"
  by (simp add: quietOrHelpExit_def)

lemma quietOrHelpExit_trans_quiet:
  "lastDirectionChange s1 = lastDirectionChange s \<Longrightarrow> set (timers s1) \<subseteq> set (timers s) \<Longrightarrow>
   robotInteractionMode s1 = robotInteractionMode s \<Longrightarrow> quietOrHelpExit s1 s' \<Longrightarrow>
   quietOrHelpExit s s'"
  by (auto simp: quietOrHelpExit_def)

lemma gsap_to_clock:
  "lastDirectionChange (gsap_to tw s) = lastDirectionChange s"
  "timers (gsap_to tw s) = timers s"
  "robotInteractionMode (gsap_to tw s) = robotInteractionMode s"
  by (simp_all add: gsap_to_def)

lemma exitPhoneMode_clock:
  "exitPhoneMode now s = Inr s' \<Longrightarrow>
   lastDirectionChange s' = lastDirectionChange s \<and> timers s' = timers s
   \<and> robotInteractionMode s' = robotInteractionMode s"
  by (auto simp: exitPhoneMode_def Let_def gsap_to_def split: option.splits)

lemma autoClosePhoneHologram_clock:
  "autoClosePhoneHologram now s = Inr s' \<Longrightarrow>
   lastDirectionChange s' = lastDirectionChange s \<and> timers s' = timers s
   \<and> robotInteractionMode s' = robotInteractionMode s"
  using exitPhoneMode_clock [of now s s']
  by (auto simp: autoClosePhoneHologram_def split: if_splits)

lemma enterPhoneMode_clock:
  "lastDirectionChange (enterPhoneMode now s) = lastDirectionChange s"
  "timers (enterPhoneMode now s) = timers s"
  "robotInteractionMode (enterPhoneMode now s) = robotInteractionMode s"
  by (simp_all add: enterPhoneMode_def Let_def gsap_to_def)

lemma activateRobotHelpMode_clock:
  "lastDirectionChange (activateRobotHelpMode now s) = lastDirectionChange s"
  "timers (activateRobotHelpMode now s) = timers s"
  "robotInteractionMode (activateRobotHelpMode now s)"
  by (simp_all add: activateRobotHelpMode_def Let_def gsap_to_def)

lemma deactivateRobotHelpMode_quiet:
  "quietOrHelpExit s (deactivateRobotHelpMode now s)"
  by (simp add: quietOrHelpExit_def deactivateRobotHelpMode_def Let_def gsap_to_def
      split: option.splits)

lemma handlePhoneClick_quiet:
  "handlePhoneClick now s = Inr s' \<Longrightarrow> quietOrHelpExit s s'"
  using exitPhoneMode_clock [of now s s']
  by (auto simp: handlePhoneClick_def enterPhoneMode_clock quietOrHelpExit_def split: if_splits)

lemma focusOnHologramScreen_quiet:
  assumes "focusOnHologramScreen i now s = Inr s'"
  shows "quietOrHelpExit s s'"
proof -
  obtain s1 where a: "autoClosePhoneHologram now s = Inr s1"
    using assms by (auto simp: focusOnHologramScreen_def andThen_def split: sum.splits)
  let ?s2 = "if robotInteractionMode s1 then deactivateRobotHelpMode now s1 else s1"
  have q2: "quietOrHelpExit s1 ?s2"
    by (simp add: deactivateRobotHelpMode_quiet quietOrHelpExit_refl)
  have e: "lastDirectionChange s' = lastDirectionChange ?s2 \<and> timers s' = timers ?s2
           \<and> robotInteractionMode s' = robotInteractionMode ?s2"
    using assms a
    by (auto simp: focusOnHologramScreen_def andThen_def Let_def gsap_to_clock split: if_splits)
  have "quietOrHelpExit s1 s'"
    using q2 e unfolding quietOrHelpExit_def by auto
  then show ?thesis
    using autoClosePhoneHologram_clock [OF a] by (auto simp: quietOrHelpExit_def)
qed

lemma returnToDefaultView_quiet:
  assumes "returnToDefaultView now s = Inr s'"
  shows "quietOrHelpExit s s'"
proof -
  obtain s1 where a: "autoClosePhoneHologram now s = Inr s1"
    using assms by (auto simp: returnToDefaultView_def andThen_def split: sum.splits)
  let ?s2 = "if robotInteractionMode s1 then deactivateRobotHelpMode now s1 else s1"
  have q2: "quietOrHelpExit s1 ?s2"
    by (simp add: deactivateRobotHelpMode_quiet quietOrHelpExit_refl)
  have e: "lastDirectionChange s' = lastDirectionChange ?s2 \<and> timers s' = timers ?s2
           \<and> robotInteractionMode s' = robotInteractionMode ?s2"
    using assms a
    by (auto simp: returnToDefaultView_def andThen_def Let_def gsap_to_clock
        deactivateHologram_def split: if_splits)
  have "quietOrHelpExit s1 s'"
    using q2 e unfolding quietOrHelpExit_def by auto
  then show ?thesis
    using autoClosePhoneHologram_clock [OF a] by (auto simp: quietOrHelpExit_def)
qed

lemma navigateToSection_quiet:
  assumes "navigateToSection sec now s = Inr s'"
  shows "quietOrHelpExit s s'"
proof (cases "currentSection s = sec \<or> \<not> isLoaded s")
  case True
  then show ?thesis using assms by (simp add: navigateToSection_def quietOrHelpExit_refl)
next
  case False
  let ?s1 = "s\<lparr>currentSection := sec\<rparr>"
  have q: "quietOrHelpExit ?s1 s' \<Longrightarrow> quietOrHelpExit s s'"
    by (simp add: quietOrHelpExit_def)
  show ?thesis
    using assms False q returnToDefaultView_quiet [of now ?s1 s']
      focusOnHologramScreen_quiet [of _ now ?s1 s']
    by (cases sec) (auto simp: navigateToSection_def Let_def quietOrHelpExit_refl)
qed

lemma robotButtonsClick_quiet:
  "robotButtonsClick c now s = Some s' \<Longrightarrow> quietOrHelpExit s s'"
  using deactivateRobotHelpMode_quiet [of s now]
  by (auto simp: robotButtonsClick_def split: option.splits buttonType.splits if_splits)

lemma phoneHologramClick_quiet:
  "phoneHologramClick c now s = Some (Inr s') \<Longrightarrow> quietOrHelpExit s s'"
  using exitPhoneMode_clock [of now s s']
  by (auto simp: phoneHologramClick_def quietOrHelpExit_def
      split: option.splits holoHit.splits)

lemma onHologramClick_quiet:
  assumes "onHologramClick c now s = Inr s'"
  shows "quietOrHelpExit s s' \<or> (\<not> robotInteractionMode s \<and> robotInteractionMode s'
           \<and> lastDirectionChange s' = lastDirectionChange s \<and> timers s' = timers s)"
proof -
  have robot: "lastDirectionChange s' = lastDirectionChange s \<and> timers s' = timers s
               \<and> robotInteractionMode s'"
    if h: "andThen (autoClosePhoneHologram now s) (\<lambda>s1. Inr (activateRobotHelpMode now s1)) = Inr s'"
  proof -
    obtain s1 where a: "autoClosePhoneHologram now s = Inr s1"
      and b: "s' = activateRobotHelpMode now s1"
      using h by (auto simp: andThen_def split: sum.splits)
    show ?thesis
      using autoClosePhoneHologram_clock [OF a] b by (simp add: activateRobotHelpMode_clock)
  qed
  show ?thesis
    using assms robot robotButtonsClick_quiet [of c now s s']
      handlePhoneClick_quiet [of now s s'] phoneHologramClick_quiet [of c now s s']
      returnToDefaultView_quiet [of now s s'] focusOnHologramScreen_quiet [of _ now s s']
    by (auto simp: onHologramClick_def quietOrHelpExit_refl split: if_splits option.splits)
qed

lemma moveStep_clock:
  "timers (moveStep rnd k s) = timers s"
  by (simp add: moveStep_def Let_def split: prod.splits)

lemma retargetStep_clock:
  "timers (fst (retargetStep now rnd s)) = timers s"
  by (simp add: retargetStep_def split: prod.splits)

lemma updateRobotMovement_clock:
  "timers (updateRobotMovement now rnd s) = timers s"
  "robotInteractionMode (updateRobotMovement now rnd s) = robotInteractionMode s"
  "lastDirectionChange (updateRobotMovement now rnd s) =
     (if \<not> robotInteractionMode s \<and> now - lastDirectionChange s > 3000 + rnd 0 * 2000
      then now else lastDirectionChange s)"
proof -
  show "timers (updateRobotMovement now rnd s) = timers s"
    by (cases "robotInteractionMode s")
       (simp_all add: updateRobotMovement_eq updateRobotMovement_in_help_mode moveStep_clock
          retargetStep_clock)
  show "robotInteractionMode (updateRobotMovement now rnd s) = robotInteractionMode s"
    by (cases "robotInteractionMode s")
       (simp_all add: updateRobotMovement_eq updateRobotMovement_in_help_mode moveStep_fields
          retargetStep_fields)
  show "lastDirectionChange (updateRobotMovement now rnd s) =
     (if \<not> robotInteractionMode s \<and> now - lastDirectionChange s > 3000 + rnd 0 * 2000
      then now else lastDirectionChange s)"
    by (cases "robotInteractionMode s")
       (simp_all add: updateRobotMovement_eq updateRobotMovement_in_help_mode moveStep_fields
          retargetStep_def split: prod.splits)
qed

lemma animate_clock:
  "(lastDirectionChange (animate t rnd s) = lastDirectionChange s
      \<and> set (timers (animate t rnd s)) \<subseteq> set (timers s))
   \<or> (\<not> robotInteractionMode s \<and> t - lastDirectionChange s > 3000 + rnd 0 * 2000
      \<and> lastDirectionChange (animate t rnd s) = t \<and> timers (animate t rnd s) = timers s)
   \<or> (robotInteractionMode s \<and> \<not> robotInteractionMode (animate t rnd s)
      \<and> lastDirectionChange (animate t rnd s) = 0)"
proof (cases "robotInteractionMode s")
  case True
  have u: "updateRobotMovement t rnd s = s" using True by (rule updateRobotMovement_in_help_mode)
  show ?thesis
    using True deactivateRobotHelpMode_quiet [of s t]
    by (auto simp: animate_def u Let_def deactivateHologram_def quietOrHelpExit_def)
next
  case False
  then show ?thesis
    by (simp add: animate_def Let_def deactivateHologram_def updateRobotMovement_clock)
qed

lemma runTweens_timers: "timers (runTweens now tws s) = timers s"
proof (induction tws arbitrary: s)
  case Nil
  show ?case by simp
next
  case (Cons tw tws)
  have "timers (completeTween tw s) = timers s"
    by (cases "tw_onComplete tw"; cases "tw_target tw"; simp add: completeTween_def)
  with Cons show ?case by simp
qed

lemma gsapTick_timers: "timers (gsapTick now s) = timers s"
  by (simp add: gsapTick_def runTweens_timers)

lemma fireTimers_writes:
  "lastDirectionChange (fireTimers t ds s) = lastDirectionChange s
   \<or> (\<not> robotInteractionMode s \<and> (\<exists>due \<in> set ds. due \<le> t)
      \<and> lastDirectionChange (fireTimers t ds s) = t - 4000)"
proof (induction ds arbitrary: s)
  case Nil
  show ?case by simp
next
  case (Cons d ds)
  show ?case
  proof (cases "d \<le> t")
    case False
    then show ?thesis using Cons.IH [of s] by auto
  next
    case True
    show ?thesis
    proof (cases "robotInteractionMode s")
      case True
      then have "forceDirectionChange t s = s" by (simp add: forceDirectionChange_def)
      then show ?thesis using \<open>d \<le> t\<close> True Cons.IH [of s] by auto
    next
      case False
      let ?s1 = "forceDirectionChange t s"
      have s1: "lastDirectionChange ?s1 = t - 4000" "\<not> robotInteractionMode ?s1"
        using False by (simp_all add: forceDirectionChange_def)
      have "lastDirectionChange (fireTimers t ds ?s1) = t - 4000"
        using Cons.IH [of ?s1] s1 by auto
      then show ?thesis using \<open>d \<le> t\<close> False by auto
    qed
  qed
qed

lemma fireTimers_timers: "timers (fireTimers t ds s) = timers s"
  by (induction ds arbitrary: s) (simp_all add: forceDirectionChange_def)

lemma runTimeouts_writes:
  "lastDirectionChange (runTimeouts t s) = lastDirectionChange s
   \<or> (\<not> robotInteractionMode s \<and> (\<exists>due \<in> set (timers s). due \<le> t)
      \<and> lastDirectionChange (runTimeouts t s) = t - 4000)"
  using fireTimers_writes [of t "timers s" "s\<lparr>timers := filter (\<lambda>due. \<not> due \<le> t) (timers s)\<rparr>"]
  by (simp add: runTimeouts_def)

lemma runTimeouts_timers: "set (timers (runTimeouts t s)) \<subseteq> set (timers s)"
  by (auto simp: runTimeouts_def fireTimers_timers)

lemma step_writes_clock:
  assumes "step ev s = Inr s'" and "lastDirectionChange s' \<noteq> lastDirectionChange s"
  shows "(\<exists>t draws. ev = Frame t draws \<and> \<not> robotInteractionMode s
            \<and> t - lastDirectionChange s > 3000 + draws 0 * 2000 \<and> lastDirectionChange s' = t)
         \<or> (robotInteractionMode s \<and> \<not> robotInteractionMode s' \<and> lastDirectionChange s' = 0)
         \<or> (\<exists>t. ev = Timeout t \<and> \<not> robotInteractionMode s
              \<and> (\<exists>due \<in> set (timers s). due \<le> t) \<and> lastDirectionChange s' = t - 4000)"
proof (cases ev)
  case (Click c t)
  then show ?thesis
    using assms onHologramClick_quiet [of c t s s'] by (auto simp: quietOrHelpExit_def)
next
  case (Navigate sec t)
  then show ?thesis
    using assms navigateToSection_quiet [of sec t s s'] by (auto simp: quietOrHelpExit_def)
next
  case EscapeKey
  then show ?thesis using assms by (auto simp: deactivateHologram_def split: if_splits)
next
  case (Frame t rnd)
  then have s': "s' = animate t rnd (gsapTick t s)" using assms(1) by simp
  show ?thesis
    using animate_clock [of t rnd "gsapTick t s"] assms(2) Frame
    unfolding s' by (auto simp: gsapTick_robot)
next
  case (Timeout t)
  then show ?thesis using assms runTimeouts_writes [of t s] by auto
next
  case (CameraMoved p q)
  then show ?thesis using assms by auto
qed

lemma step_registers_timer:
  assumes "step ev s = Inr s'" and "due \<in> set (timers s')" and "due \<notin> set (timers s)"
  shows "robotInteractionMode s \<and> \<not> robotInteractionMode s'"
proof (cases ev)
  case (Click c t)
  then show ?thesis
    using assms onHologramClick_quiet [of c t s s'] by (auto simp: quietOrHelpExit_def)
next
  case (Navigate sec t)
  then show ?thesis
    using assms navigateToSection_quiet [of sec t s s'] by (auto simp: quietOrHelpExit_def)
next
  case EscapeKey
  then show ?thesis using assms by (auto simp: deactivateHologram_def split: if_splits)
next
  case (Frame t rnd)
  then have s': "s' = animate t rnd (gsapTick t s)" using assms(1) by simp
  show ?thesis
    using animate_clock [of t rnd "gsapTick t s"] assms(2,3)
    unfolding s' by (auto simp: gsapTick_robot gsapTick_timers)
next
  case (Timeout t)
  then show ?thesis using assms runTimeouts_timers [of t s] by auto
next
  case (CameraMoved p q)
  then show ?thesis using assms by auto
qed

lemma moveStep_moving_iff:
  "isMoving s \<Longrightarrow> isMoving (moveStep rnd k s) = (1 < targetDistance s)"
  by (simp add: moveStep_def targetDistance_def Let_def split: prod.splits)

lemma updateRobotMovement_moving_iff:
  assumes "\<not> robotInteractionMode s" and "now - lastDirectionChange s > 3000 + rnd 0 * 2000"
  shows "isMoving (updateRobotMovement now rnd s)
           = (1 < targetDistance (fst (retargetStep now rnd s)))"
proof -
  have "isMoving (fst (retargetStep now rnd s))"
    using assms(2) by (simp add: retargetStep_fires Let_def)
  then show ?thesis
    using assms(1) by (simp add: updateRobotMovement_eq moveStep_moving_iff)
qed

lemma step_frame_retargets:
  assumes "\<not> robotInteractionMode s" and "t - lastDirectionChange s > 3000 + rnd 0 * 2000"
  shows "\<exists>s'. step (Frame t rnd) s = Inr s' \<and> lastDirectionChange s' = t
           \<and> isMoving s' = isMoving (updateRobotMovement t rnd (gsapTick t s))"
proof -
  let ?g = "gsapTick t s"
  have m: "\<not> robotInteractionMode ?g" using assms(1) by (simp add: gsapTick_robot)
  have e: "t - lastDirectionChange ?g > 3000 + rnd 0 * 2000"
    using assms(2) by (simp add: gsapTick_robot)
  have u: "\<not> robotInteractionMode (updateRobotMovement t rnd ?g)"
    using m by (simp add: updateRobotMovement_eq moveStep_fields retargetStep_fields)
  have c: "lastDirectionChange (updateRobotMovement t rnd ?g) = t"
    using m e by (rule updateRobotMovement_retargets(1))
  show ?thesis
    using u c by (simp add: animate_def Let_def deactivateHologram_def)
qed

lemma retargetStep_target:
  assumes "now - lastDirectionChange s > 3000 + rnd 0 * 2000"
  shows "targetPosition (fst (retargetStep now rnd s)) =
     Vector3 (fst (fst (findValidPosition (obstacles_of s) rnd 1 (vx (robot_position s))
                (vz (robot_position s)) defaultMaxAttempts))) 0
             (snd (fst (findValidPosition (obstacles_of s) rnd 1 (vx (robot_position s))
                (vz (robot_position s)) defaultMaxAttempts)))"
  using assms by (simp add: retargetStep_fires Let_def)

text \<open>
  C8 (as amended). Whatever happens to the page, the robot goes from idle to moving only
  in an animation frame whose tick of \<open>updateRobotMovement\<close> finds the time since
  \<open>lastDirectionChange\<close> greater than \<open>3000 + Math.random() * 2000\<close>, hence never
  within 3000 ms of the clock value. At a tick outside the help mode with 5000 ms or
  more on the clock the change of direction always fires: the clock is reset and the
  target is redrawn by \<open>findValidPosition\<close>; the robot ends that tick moving exactly
  when the new target is more than one unit away, so with the sampler exhausted it stays
  idle for another cycle. The clock is written only by such a tick (to the time of the
  tick), by leaving the help mode (to 0) and by the timer that leaving the help mode
  registers (to \<open>now - 4000\<close>); it is 0 when the scene is loaded, so the first tick
  after loading changes direction as well.
\<close>

theorem retarget_clock_bounds:
  "(step ev s = Inr s' \<and> \<not> isMoving s \<and> isMoving s' \<longrightarrow>
       (\<exists>t draws. ev = Frame t draws \<and> t - lastDirectionChange s > 3000 + draws 0 * 2000))
   \<and> (0 \<le> rnd 0 \<and> \<not> isMoving s \<and> isMoving (updateRobotMovement now rnd s) \<longrightarrow>
       now - lastDirectionChange s > 3000)
   \<and> (rnd 0 < 1 \<and> \<not> robotInteractionMode s \<and> now - lastDirectionChange s \<ge> 5000 \<longrightarrow>
       lastDirectionChange (updateRobotMovement now rnd s) = now
       \<and> targetPosition (fst (retargetStep now rnd s)) =
           Vector3 (fst (fst (findValidPosition (obstacles_of s) rnd 1 (vx (robot_position s))
                      (vz (robot_position s)) defaultMaxAttempts))) 0
                   (snd (fst (findValidPosition (obstacles_of s) rnd 1 (vx (robot_position s))
                      (vz (robot_position s)) defaultMaxAttempts)))
       \<and> isMoving (updateRobotMovement now rnd s)
           = (1 < targetDistance (fst (retargetStep now rnd s)))
       \<and> (\<exists>s2. step (Frame now rnd) s = Inr s2 \<and> lastDirectionChange s2 = now))
   \<and> (step ev s = Inr s' \<and> lastDirectionChange s' \<noteq> lastDirectionChange s \<longrightarrow>
       (\<exists>t draws. ev = Frame t draws \<and> \<not> robotInteractionMode s
            \<and> t - lastDirectionChange s > 3000 + draws 0 * 2000 \<and> lastDirectionChange s' = t)
       \<or> (robotInteractionMode s \<and> \<not> robotInteractionMode s' \<and> lastDirectionChange s' = 0)
       \<or> (\<exists>t. ev = Timeout t \<and> \<not> robotInteractionMode s
              \<and> (\<exists>due \<in> set (timers s). due \<le> t) \<and> lastDirectionChange s' = t - 4000))
   \<and> (step ev s = Inr s' \<and> due \<in> set (timers s') \<and> due \<notin> set (timers s) \<longrightarrow>
       robotInteractionMode s \<and> \<not> robotInteractionMode s')
   \<and> (robotInteractionMode s \<longrightarrow>
       lastDirectionChange (deactivateRobotHelpMode now s) = 0
       \<and> \<not> isMoving (deactivateRobotHelpMode now s)
       \<and> timers (deactivateRobotHelpMode now s) = timers s @ [now + 100])
   \<and> (\<not> robotInteractionMode s \<and> due \<in> set (timers s) \<and> due \<le> now \<longrightarrow>
       lastDirectionChange (runTimeouts now s) = now - 4000)
   \<and> lastDirectionChange (initialState startX startZ ow) = 0"
proof (intro conjI impI)
  assume "step ev s = Inr s' \<and> \<not> isMoving s \<and> isMoving s'"
  then show "\<exists>t draws. ev = Frame t draws \<and> t - lastDirectionChange s > 3000 + draws 0 * 2000"
    using step_becomes_moving by blast
next
  assume a: "0 \<le> rnd 0 \<and> \<not> isMoving s \<and> isMoving (updateRobotMovement now rnd s)"
  then have "now - lastDirectionChange s > 3000 + rnd 0 * 2000"
    using updateRobotMovement_becomes_moving by blast
  with a show "now - lastDirectionChange s > 3000" by simp
next
  assume a: "rnd 0 < 1 \<and> \<not> robotInteractionMode s \<and> now - lastDirectionChange s \<ge> 5000"
  then have e: "now - lastDirectionChange s > 3000 + rnd 0 * 2000" by simp
  from a have m: "\<not> robotInteractionMode s" by simp
  show "lastDirectionChange (updateRobotMovement now rnd s) = now"
    using m e by (rule updateRobotMovement_retargets(1))
  show "targetPosition (fst (retargetStep now rnd s)) =
           Vector3 (fst (fst (findValidPosition (obstacles_of s) rnd 1 (vx (robot_position s))
                      (vz (robot_position s)) defaultMaxAttempts))) 0
                   (snd (fst (findValidPosition (obstacles_of s) rnd 1 (vx (robot_position s))
                      (vz (robot_position s)) defaultMaxAttempts)))"
    using e by (rule retargetStep_target)
  show "isMoving (updateRobotMovement now rnd s)
           = (1 < targetDistance (fst (retargetStep now rnd s)))"
    using m e by (rule updateRobotMovement_moving_iff)
  show "\<exists>s2. step (Frame now rnd) s = Inr s2 \<and> lastDirectionChange s2 = now"
    using step_frame_retargets [where s=s and t=now and rnd=rnd] m e by blast
next
  assume "step ev s = Inr s' \<and> lastDirectionChange s' \<noteq> lastDirectionChange s"
  then show "(\<exists>t draws. ev = Frame t draws \<and> \<not> robotInteractionMode s
            \<and> t - lastDirectionChange s > 3000 + draws 0 * 2000 \<and> lastDirectionChange s' = t)
       \<or> (robotInteractionMode s \<and> \<not> robotInteractionMode s' \<and> lastDirectionChange s' = 0)
       \<or> (\<exists>t. ev = Timeout t \<and> \<not> robotInteractionMode s
              \<and> (\<exists>due \<in> set (timers s). due \<le> t) \<and> lastDirectionChange s' = t - 4000)"
    using step_writes_clock by blast
next
  assume a: "step ev s = Inr s' \<and> due \<in> set (timers s') \<and> due \<notin> set (timers s)"
  then show "robotInteractionMode s" "\<not> robotInteractionMode s'"
    using step_registers_timer [of ev s s' due] by simp_all
next
  assume r: "robotInteractionMode s"
  show "lastDirectionChange (deactivateRobotHelpMode now s) = 0"
    "\<not> isMoving (deactivateRobotHelpMode now s)"
    "timers (deactivateRobotHelpMode now s) = timers s @ [now + 100]"
    using deactivateRobotHelpMode_clock [OF r] by simp_all
next
  assume "\<not> robotInteractionMode s \<and> due \<in> set (timers s) \<and> due \<le> now"
  then show "lastDirectionChange (runTimeouts now s) = now - 4000"
    using runTimeouts_clock by blast
next
  show "lastDirectionChange (initialState startX startZ ow) = 0"
    by (simp add: initialState_def)
qed

theorem retarget_clock_witness:
  "isMoving (updateRobotMovement 7000 sampleDraws idleState)
   \<and> lastDirectionChange (updateRobotMovement 7000 sampleDraws idleState) = 7000
   \<and> targetPosition (updateRobotMovement 7000 sampleDraws idleState) = Vector3 20 0 15
   \<and> \<not> isMoving (updateRobotMovement 3500 sampleDraws idleState)
   \<and> lastDirectionChange exitedHelpState = 0
   \<and> timers exitedHelpState = [9100]
   \<and> lastDirectionChange (runTimeouts 9100 exitedHelpState) = 5100
   \<and> (case step (Frame 7000 sampleDraws) idleState of
         Inl e \<Rightarrow> False | Inr s' \<Rightarrow> isMoving s' \<and> lastDirectionChange s' = 7000)"
proof -
  have free2: "\<not> checkCollision obstacles 20 (1997 / 100) defaultRobotRadius"
    by (simp add: collision_eval)
  have d0: "sampleDraws 0 = 3/4" by (simp add: sampleDraws_def)
  have h: "robotInteractionMode helpState" "timers helpState = []"
    by (simp_all add: helpState_def initialState_def activateRobotHelpMode_def gsap_to_def Let_def)
  have x: "\<not> robotInteractionMode exitedHelpState" "timers exitedHelpState = [9100]"
    "lastDirectionChange exitedHelpState = 0"
    using retarget_clock_bounds [where s=helpState and now=9000] h
    by (simp_all add: exitedHelpState_def deactivateRobotHelpMode_mode)
  have t: "lastDirectionChange (runTimeouts 9100 exitedHelpState) = 5100"
    using retarget_clock_bounds [where s=exitedHelpState and now=9100 and due=9100] x
    by simp
  have i: "\<not> robotInteractionMode idleState" "\<not> isHologramActive idleState"
    "\<not> isMoving idleState" "lastDirectionChange idleState = 1000"
    by (simp_all add: idleState_def initialState_def)
  have first: "isMoving (updateRobotMovement 7000 sampleDraws idleState)"
    "lastDirectionChange (updateRobotMovement 7000 sampleDraws idleState) = 7000"
    "targetPosition (updateRobotMovement 7000 sampleDraws idleState) = Vector3 20 0 15"
    "\<not> isMoving (updateRobotMovement 3500 sampleDraws idleState)"
    using retarget_clock_bounds [where s=idleState and now=7000 and rnd=sampleDraws]
    by (simp_all add: idleState_def initialState_def updateRobotMovement_def retargetStep_def
        moveStep_def sample_target d0 free2 Let_def)
  have g: "gsapTick 7000 idleState = idleState"
    by (simp add: gsapTick_def idleState_def initialState_def)
  have u: "\<not> robotInteractionMode (updateRobotMovement 7000 sampleDraws idleState)"
    "\<not> isHologramActive (updateRobotMovement 7000 sampleDraws idleState)"
    using i by (simp_all add: updateRobotMovement_eq moveStep_fields retargetStep_fields
        moveStep_hologram retargetStep_hologram)
  have frame: "step (Frame 7000 sampleDraws) idleState
      = Inr (updateRobotMovement 7000 sampleDraws idleState)"
    using u by (simp add: g animate_def Let_def)
  show ?thesis
    using first x t frame
      retarget_clock_bounds [where s=idleState and ev="Frame 7000 sampleDraws"
        and s'="updateRobotMovement 7000 sampleDraws idleState"]
    by simp
qed

text \<open>
  C8 (as stated) fails. After loading, the frame at 10000 changes direction; every
  candidate of the sampler is blocked, so the target is the robot's own position and the
  robot stays idle. 6000 ms later, outside the help mode, the frame at 16000 changes
  direction again, again with every candidate blocked, and the robot is still idle: more
  than 5000 ms after the prior change of direction there is no transition to moving.
  And the first tick after loading, with the clock at 0, sets the robot moving though no
  change of direction and no exit of the help mode came before.
\<close>

theorem exhausted_sampler_counterexample:
  "map_sum id (\<lambda>s. (isMoving s, lastDirectionChange s, robotInteractionMode s))
      (run [Frame 10000 (\<lambda>n. 1/2)] (initialState 20 20 False)) = Inr (False, 10000, False)
   \<and> map_sum id (\<lambda>s. (isMoving s, lastDirectionChange s, robotInteractionMode s))
      (run [Frame 10000 (\<lambda>n. 1/2), Frame 16000 (\<lambda>n. 1/2)] (initialState 20 20 False))
     = Inr (False, 16000, False)
   \<and> lastDirectionChange (initialState 20 20 False) = 0
   \<and> \<not> isMoving (initialState 20 20 False)
   \<and> isMoving (updateRobotMovement 1700000000000 sampleDraws (initialState 20 20 False))"
proof -
  have free2: "\<not> checkCollision obstacles 20 (1997 / 100) defaultRobotRadius"
    by (simp add: collision_eval)
  have d0: "sampleDraws 0 = 3/4" by (simp add: sampleDraws_def)
  show ?thesis
    by (simp add: initialState_def updateRobotMovement_def retargetStep_def andThen_def
        moveStep_def findValid_all_half sample_target d0 free2 Let_def animate_def gsapTick_def)
qed

section \<open>Exits and the camera over gsap ticks\<close>
















lemma activateRobotHelpMode_saved:
  "robotInteractionMode s \<Longrightarrow> activateRobotHelpMode now s = s"
  by (simp add: activateRobotHelpMode_def)

lemma exitPhoneMode_camera:
  "exitPhoneMode now s = Inr s' \<Longrightarrow>
   camera_position s' = camera_position s \<and> controls_target s' = controls_target s"
  by (auto simp: exitPhoneMode_def Let_def gsap_to_def split: option.splits)


























text \<open>
  Why the condition on the pending tweens is needed: gsap's default keeps an older tween
  on the same object. The back button at 1000 starts the 2 s animation to the default
  view, the phone is entered at 1100 and left at 1200. The exit's tween ends at 2700 and
  the camera then holds the saved pose, but the older tween ends at 3000 and moves the
  camera to \<open>(0, 8, 12)\<close>.
\<close>

lemma pending_tween_outlasts_exit:
  "map_sum id
     (\<lambda>s. (phoneInteractionMode s, originalCameraPosition s,
           camera_position (gsapTicks [2700] s), camera_position (gsapTicks [2700, 3000] s)))
     (run [Click (noHit\<lparr>backButtonHit := True\<rparr>) 1000,
           Click (noHit\<lparr>phoneHit := True\<rparr>) 1100,
           Click (noHit\<lparr>phoneHit := True\<rparr>) 1200] movedState)
   = Inr (False, Some (Vector3 1 2 3), Vector3 1 2 3, Vector3 0 8 12)"
  by (simp add: movedState_def initialState_def noHit_def onHologramClick_def dragThreshold_def
      andThen_def returnToDefaultView_def autoClosePhoneHologram_def handlePhoneClick_def
      enterPhoneMode_def exitPhoneMode_def deactivateHologram_def gsap_to_def gsapTick_def
      completeTween_def Let_def)



end
